theory Spec2Isabelle
  imports Complex_Main "HOL-Library.Sublist" "HOL-Library.AList"
begin

section \<open>The product catalog request handler (index.js)\<close>

text \<open>
  A shallow embedding of \<^verbatim>\<open>index.js\<close>: the response helper \<^verbatim>\<open>formatResponse\<close>,
  the identity helper \<^verbatim>\<open>getUserEmailFromToken\<close> and the exported \<^verbatim>\<open>handler\<close>.
  The handler is sequential code over three services (collection store, speech
  service, object store). Exceptions are values of a sum type, the services are
  explicit state, and the pagination loop of the list operation is a recursive
  function with a termination proof. What the source takes from outside itself
  (the failures and pages of the services, and the values of the library and
  language functions \<^verbatim>\<open>parseInt\<close>, \<^verbatim>\<open>parseFloat\<close>, \<^verbatim>\<open>toLowerCase\<close>, \<^verbatim>\<open>uuidv4\<close>,
  \<^verbatim>\<open>Date\<close>, \<^verbatim>\<open>Buffer\<close> and \<^verbatim>\<open>JSON.parse\<close>) is a parameter, so every theorem holds
  for whatever those return.
\<close>

subsection \<open>JavaScript values\<close>

text \<open>
  A JavaScript number: \<open>NaN\<close>, an infinity (\<open>Inf True\<close> is the negative one), or a
  finite double, given by its rational value. The sign of zero is not modelled.
\<close>

datatype jsnum = NaN | Inf bool | Num rat

text \<open>
  The values \<^verbatim>\<open>JSON.parse\<close> produces. An object is the list of its members in
  order; a member is read with \<open>map_of\<close>. The JavaScript value \<^verbatim>\<open>undefined\<close> is
  \<open>None\<close> of type \<open>json option\<close>.
\<close>

datatype json =
    JNull
  | JBool bool
  | JNum jsnum
  | JStr string
  | JArr "json list"
  | JObj "(string \<times> json) list"

type_synonym jsval = "json option"

text \<open>An exception object; the handler only ever reads its \<^verbatim>\<open>message\<close>.\<close>

datatype js_error = SyntaxError string | TypeError string | ServiceError string

fun message :: "js_error \<Rightarrow> string" where
  "message (SyntaxError m) = m"
| "message (TypeError m) = m"
| "message (ServiceError m) = m"

subsection \<open>Language built-ins used by the handler\<close>

text \<open>
  \<^verbatim>\<open>ToString\<close>, which a template literal, \<^verbatim>\<open>parseInt\<close> and \<^verbatim>\<open>parseFloat\<close> apply to
  their argument, throws a \<^verbatim>\<open>TypeError\<close> on some parsed values. An object made by
  \<^verbatim>\<open>JSON.parse\<close> is converted by the \<^verbatim>\<open>toString\<close> of \<^verbatim>\<open>Object.prototype\<close> unless it
  has a member of that name; such a member is never callable, and neither it nor
  \<^verbatim>\<open>valueOf\<close> then yields a primitive value. An array is converted by joining the
  conversions of its elements (\<^verbatim>\<open>null\<close> elements are skipped). Every other value
  converts.
\<close>

fun throws_on_ToString :: "json \<Rightarrow> bool" where
  "throws_on_ToString (JObj kvs) = (map_of kvs ''toString'' \<noteq> None)"
| "throws_on_ToString (JArr xs) = (\<exists>x \<in> set xs. throws_on_ToString x)"
| "throws_on_ToString JNull = False"
| "throws_on_ToString (JBool b) = False"
| "throws_on_ToString (JNum x) = False"
| "throws_on_ToString (JStr s) = False"

text \<open>
  The error \<^verbatim>\<open>ToString(v)\<close> raises, if any. The text it returns otherwise is not
  modelled: the source logs it or hands it to a parser.
\<close>

definition ToString_error :: "jsval \<Rightarrow> js_error option" where
  "ToString_error v =
     (case v of
        None \<Rightarrow> None
      | Some j \<Rightarrow>
          if throws_on_ToString j
          then Some (TypeError ''Cannot convert object to primitive value'')
          else None)"

definition isNaN :: "jsnum \<Rightarrow> bool" where
  "isNaN x = (x = NaN)"

text \<open>Truthiness, as tested by \<^verbatim>\<open>!x\<close>, \<^verbatim>\<open>x || y\<close> and \<^verbatim>\<open>x ? a : b\<close>.\<close>

fun truthy :: "jsval \<Rightarrow> bool" where
  "truthy None = False"
| "truthy (Some JNull) = False"
| "truthy (Some (JBool b)) = b"
| "truthy (Some (JNum NaN)) = False"
| "truthy (Some (JNum (Inf neg))) = True"
| "truthy (Some (JNum (Num q))) = (q \<noteq> 0)"
| "truthy (Some (JStr s)) = (s \<noteq> [])"
| "truthy (Some (JArr xs)) = True"
| "truthy (Some (JObj kvs)) = True"

text \<open>\<^verbatim>\<open>s.split(c)\<close> for a one-character separator: never empty, \<open>''''\<close> gives \<open>['''']\<close>.\<close>

fun split_on :: "char \<Rightarrow> string \<Rightarrow> string list" where
  "split_on c [] = [[]]"
| "split_on c (x # xs) =
     (if x = c then [] # split_on c xs
      else (case split_on c xs of
              [] \<Rightarrow> [[x]]
            | p # ps \<Rightarrow> (x # p) # ps))"

text \<open>
  The member of a parsed value under a name: the member of an object, and
  \<^verbatim>\<open>undefined\<close> on a string, number, boolean or array (none of the names the
  handler reads is a built-in property of those).
\<close>

definition member :: "json \<Rightarrow> string \<Rightarrow> jsval" where
  "member v name = (case v of JObj kvs \<Rightarrow> map_of kvs name | _ \<Rightarrow> None)"

text \<open>Reading a property, \<^verbatim>\<open>v.name\<close>: a \<^verbatim>\<open>TypeError\<close> on \<^verbatim>\<open>null\<close>.\<close>

definition get_prop :: "json \<Rightarrow> string \<Rightarrow> js_error + jsval" where
  "get_prop v name =
     (if v = JNull then
        Inl (TypeError (''Cannot read properties of null (reading '' @ [CHR 0x27] @ name
                          @ [CHR 0x27] @ '')''))
      else Inr (member v name))"

subsection \<open>Requests and responses\<close>

text \<open>
  The response object. \<open>resp_body\<close> is the value handed to \<^verbatim>\<open>JSON.stringify\<close>; it is
  \<open>None\<close> for the one response (204) that is built without a \<^verbatim>\<open>body\<close>.
\<close>

record response =
  statusCode :: nat
  resp_headers :: "(string \<times> string) list"
  resp_body :: "json option"

definition formatResponse :: "nat \<Rightarrow> json \<Rightarrow> response" where
  "formatResponse code b =
     \<lparr> statusCode = code,
       resp_headers =
         [(''Content-Type'', ''application/json''),
          (''Access-Control-Allow-Origin'', ''*''),
          (''Access-Control-Allow-Methods'', ''GET,POST,PUT,DELETE,OPTIONS''),
          (''Access-Control-Allow-Headers'',
           ''Content-Type,X-Amz-Date,Authorization,X-Api-Key,X-Amz-Security-Token'')],
       resp_body = Some b \<rparr>"

definition message_body :: "string \<Rightarrow> json" where
  "message_body m = JObj [(''message'', JStr m)]"

text \<open>
  The text of a request body is represented by what \<^verbatim>\<open>JSON.parse\<close> makes of it:
  the \<^verbatim>\<open>SyntaxError\<close> it throws, with its message, or the value it returns. An
  absent, \<^verbatim>\<open>null\<close> or empty body is \<open>None\<close>.
\<close>

datatype body_text = Malformed string | Parsed json

record event =
  httpMethod :: string
  pathParameters :: "(string \<times> string) list option"
  queryStringParameters :: "(string \<times> string) list option"
  headers :: "(string \<times> string) list option"
  body :: "body_text option"

text \<open>\<^verbatim>\<open>event.body ? JSON.parse(event.body) : {}\<close>\<close>

definition parse_body :: "body_text option \<Rightarrow> js_error + json" where
  "parse_body b =
     (case b of
        None \<Rightarrow> Inr (JObj [])
      | Some (Malformed m) \<Rightarrow> Inl (SyntaxError m)
      | Some (Parsed j) \<Rightarrow> Inr j)"

text \<open>\<^verbatim>\<open>(params || {}).name\<close>\<close>

definition param :: "(string \<times> string) list option \<Rightarrow> string \<Rightarrow> string option" where
  "param ps name = (case ps of None \<Rightarrow> None | Some kvs \<Rightarrow> map_of kvs name)"

text \<open>\<^verbatim>\<open>!s\<close> for a string that may be undefined.\<close>

definition missing :: "string option \<Rightarrow> bool" where
  "missing s = (s = None \<or> s = Some [])"

subsection \<open>The services\<close>

type_synonym item = "(string \<times> json) list"

text \<open>A request sent to one of the three services, and how it ended.\<close>

datatype call =
    Scan json "string option" "nat option"
  | Put item
  | Update string string jsnum jsnum string
  | Delete string
  | SynthesizeSpeech string
  | Upload string string

datatype outcome = Ok | Failed string

text \<open>
  What one invocation gets from outside the source: which of its service requests
  fail (the \<open>n\<close>-th request since the log began, with the error's message), how
  many records beyond the first the store reads for the page of a scan that starts
  at a given position, the claims \<^verbatim>\<open>JSON.parse(Buffer.from(seg, 'base64').toString('utf8'))\<close>
  finds in a token segment (\<open>None\<close> when the parse throws), the identifier
  \<^verbatim>\<open>uuidv4()\<close> returns, the time \<^verbatim>\<open>new Date().toISOString()\<close> returns, the audio
  the speech service makes of a text, the number \<^verbatim>\<open>parseInt(v, 10)\<close> and the number
  \<^verbatim>\<open>parseFloat(v)\<close> return for a value whose string conversion does not throw, and
  the string \<^verbatim>\<open>s.toLowerCase()\<close> returns.
\<close>

record runtime =
  fault :: "nat \<Rightarrow> string option"
  page_limit :: "nat \<Rightarrow> nat"
  jwt_payload :: "string \<Rightarrow> json option"
  uuidv4 :: string
  now_iso :: string
  synth :: "string \<Rightarrow> string"
  parseInt_value :: "jsval \<Rightarrow> jsnum"
  parseFloat_value :: "jsval \<Rightarrow> jsnum"
  toLowerCase :: "string \<Rightarrow> string"

text \<open>
  \<^verbatim>\<open>parseInt(v, 10)\<close> and \<^verbatim>\<open>parseFloat(v)\<close>: both convert their argument to a string
  first, which may throw, and then return a number, which may be \<open>NaN\<close>.
\<close>

definition parseInt10 :: "runtime \<Rightarrow> jsval \<Rightarrow> js_error + jsnum" where
  "parseInt10 rt v =
     (case ToString_error v of
        Some e \<Rightarrow> Inl e
      | None \<Rightarrow> Inr (parseInt_value rt v))"

definition parseFloat :: "runtime \<Rightarrow> jsval \<Rightarrow> js_error + jsnum" where
  "parseFloat rt v =
     (case ToString_error v of
        Some e \<Rightarrow> Inl e
      | None \<Rightarrow> Inr (parseFloat_value rt v))"

text \<open>
  The state the handler works on: the \<^verbatim>\<open>products\<close> table, in the order a scan reads
  it, the objects of the bucket \<^verbatim>\<open>ecom-polly-audio\<close>, and the log of the requests
  sent so far.
\<close>

record world =
  table :: "item list"
  bucket :: "(string \<times> string) list"
  calls :: "(call \<times> outcome) list"

text \<open>
  Sending a request: it is logged, and it fails when the runtime says so. A
  failure is any rejection of the client's \<^verbatim>\<open>send\<close>, by the service or by the client
  library itself (which refuses to marshal some values).
\<close>

definition send :: "runtime \<Rightarrow> call \<Rightarrow> world \<Rightarrow> string option \<times> world" where
  "send rt c w =
     (case fault rt (length (calls w)) of
        None \<Rightarrow> (None, w\<lparr>calls := calls w @ [(c, Ok)]\<rparr>)
      | Some m \<Rightarrow> (Some m, w\<lparr>calls := calls w @ [(c, Failed m)]\<rparr>))"

definition has_key :: "string \<Rightarrow> item \<Rightarrow> bool" where
  "has_key pid it = (map_of it ''productid'' = Some (JStr pid))"

text \<open>
  Modelled from the spec: the store's filter. \<^verbatim>\<open>userId = :u\<close> is an exact match of
  the record's owner field; \<^verbatim>\<open>contains(searchname, :s)\<close> is case-sensitive substring
  containment of the term within \<^verbatim>\<open>searchname\<close>.
\<close>

definition filter_matches :: "json \<Rightarrow> string option \<Rightarrow> item \<Rightarrow> bool" where
  "filter_matches u s it =
     (map_of it ''userId'' = Some u \<and>
      (case s of
         None \<Rightarrow> True
       | Some t \<Rightarrow>
           (case map_of it ''searchname'' of
              Some (JStr sn) \<Rightarrow> sublist t sn
            | _ \<Rightarrow> False)))"

definition start_pos :: "nat option \<Rightarrow> nat" where
  "start_pos k = (case k of None \<Rightarrow> 0 | Some p \<Rightarrow> p)"

text \<open>
  Modelled from the spec: a paginated scan with a filter predicate and a
  continuation token. The token is opaque to the handler; here it is the number
  of records read so far. A page reads at least one record, filters what it read,
  and carries a token exactly when records remain.
\<close>

definition scan_page ::
  "runtime \<Rightarrow> json \<Rightarrow> string option \<Rightarrow> nat option \<Rightarrow> item list \<Rightarrow> item list \<times> nat option" where
  "scan_page rt u s k tbl =
     (let p = start_pos k;
          p' = p + Suc (page_limit rt p)
      in (filter (filter_matches u s) (take (Suc (page_limit rt p)) (drop p tbl)),
          if p' < length tbl then Some p' else None))"

definition db_scan ::
  "runtime \<Rightarrow> json \<Rightarrow> string option \<Rightarrow> nat option \<Rightarrow> world
     \<Rightarrow> (js_error + item list \<times> nat option) \<times> world" where
  "db_scan rt u s k w =
     (case send rt (Scan u s k) w of
        (Some m, w') \<Rightarrow> (Inl (ServiceError m), w')
      | (None, w') \<Rightarrow> (Inr (scan_page rt u s k (table w')), w'))"

definition put_table :: "item \<Rightarrow> item list \<Rightarrow> item list" where
  "put_table it tbl =
     filter (\<lambda>x. map_of x ''productid'' \<noteq> map_of it ''productid'') tbl @ [it]"

text \<open>
  Modelled from the spec: an unconditional write of a record under its key, in
  the place of any record that had the key.
\<close>

definition db_put :: "runtime \<Rightarrow> item \<Rightarrow> world \<Rightarrow> (js_error + unit) \<times> world" where
  "db_put rt it w =
     (case send rt (Put it) w of
        (Some m, w') \<Rightarrow> (Inl (ServiceError m), w')
      | (None, w') \<Rightarrow> (Inr (), w'\<lparr>table := put_table it (table w')\<rparr>))"

text \<open>The \<^verbatim>\<open>set\<close> expression of the update: four attributes are assigned.\<close>

definition set_attrs :: "string \<Rightarrow> jsnum \<Rightarrow> jsnum \<Rightarrow> string \<Rightarrow> item \<Rightarrow> item" where
  "set_attrs pn q p sn it =
     AList.update ''searchname'' (JStr sn)
       (AList.update ''price'' (JNum p)
          (AList.update ''quantity'' (JNum q)
             (AList.update ''productname'' (JStr pn) it)))"

definition update_table ::
  "string \<Rightarrow> string \<Rightarrow> jsnum \<Rightarrow> jsnum \<Rightarrow> string \<Rightarrow> item list \<Rightarrow> item list" where
  "update_table pid pn q p sn tbl =
     (if \<exists>it \<in> set tbl. has_key pid it
      then map (\<lambda>it. if has_key pid it then set_attrs pn q p sn it else it) tbl
      else tbl @ [set_attrs pn q p sn [(''productid'', JStr pid)]])"

text \<open>
  Modelled from the spec, and from the comment at the source's 404 branch
  (\<^verbatim>\<open>DynamoDB UpdateCommand creates if not exists by default\<close>): a conditionless
  update that creates the record when it is absent, and returns the post-update
  image.
\<close>

definition db_update ::
  "runtime \<Rightarrow> string \<Rightarrow> string \<Rightarrow> jsnum \<Rightarrow> jsnum \<Rightarrow> string \<Rightarrow> world
     \<Rightarrow> (js_error + item option) \<times> world" where
  "db_update rt pid pn q p sn w =
     (case send rt (Update pid pn q p sn) w of
        (Some m, w') \<Rightarrow> (Inl (ServiceError m), w')
      | (None, w') \<Rightarrow>
          (let tbl = update_table pid pn q p sn (table w')
           in (Inr (find (has_key pid) tbl), w'\<lparr>table := tbl\<rparr>)))"

text \<open>
  Modelled from the spec: a delete by key that returns the pre-delete image, and
  none when the record did not exist.
\<close>

definition db_delete ::
  "runtime \<Rightarrow> string \<Rightarrow> world \<Rightarrow> (js_error + item option) \<times> world" where
  "db_delete rt pid w =
     (case send rt (Delete pid) w of
        (Some m, w') \<Rightarrow> (Inl (ServiceError m), w')
      | (None, w') \<Rightarrow>
          (Inr (find (has_key pid) (table w')),
           w'\<lparr>table := filter (\<lambda>it. \<not> has_key pid it) (table w')\<rparr>))"

text \<open>Modelled from the spec: given a text, the speech service returns audio.\<close>

definition polly_synthesize :: "runtime \<Rightarrow> string \<Rightarrow> world \<Rightarrow> (js_error + string) \<times> world" where
  "polly_synthesize rt txt w =
     (case send rt (SynthesizeSpeech txt) w of
        (Some m, w') \<Rightarrow> (Inl (ServiceError m), w')
      | (None, w') \<Rightarrow> (Inr (synth rt txt), w'))"

text \<open>Modelled from the spec: the object store keeps the upload under its key.\<close>

definition s3_upload :: "runtime \<Rightarrow> string \<Rightarrow> string \<Rightarrow> world \<Rightarrow> (js_error + unit) \<times> world" where
  "s3_upload rt k audio w =
     (case send rt (Upload k audio) w of
        (Some m, w') \<Rightarrow> (Inl (ServiceError m), w')
      | (None, w') \<Rightarrow> (Inr (), w'\<lparr>bucket := AList.update k audio (bucket w')\<rparr>))"

subsection \<open>Identity extraction\<close>

text \<open>\<^verbatim>\<open>a || b || c || null\<close>: the first truthy operand, \<^verbatim>\<open>null\<close> when there is none.\<close>

fun first_truthy :: "jsval list \<Rightarrow> json" where
  "first_truthy [] = JNull"
| "first_truthy (v # vs) =
     (case v of
        None \<Rightarrow> first_truthy vs
      | Some j \<Rightarrow> if truthy v then j else first_truthy vs)"

text \<open>
  The claims read from a parsed payload. A \<^verbatim>\<open>TypeError\<close> on a \<^verbatim>\<open>null\<close> payload is
  caught by the helper's own \<^verbatim>\<open>catch\<close>, which returns \<^verbatim>\<open>null\<close>.
\<close>

definition payload_identity :: "json \<Rightarrow> json" where
  "payload_identity payload =
     (case get_prop payload ''email'' of
        Inl e \<Rightarrow> JNull
      | Inr email \<Rightarrow>
          (case get_prop payload ''cognito:username'' of
             Inl e \<Rightarrow> JNull
           | Inr username \<Rightarrow>
               (case get_prop payload ''preferred_username'' of
                  Inl e \<Rightarrow> JNull
                | Inr preferred \<Rightarrow> first_truthy [email, username, preferred])))"

text \<open>\<^verbatim>\<open>headers && (headers.Authorization || headers.authorization)\<close>\<close>

definition authorization_header :: "(string \<times> string) list option \<Rightarrow> string option" where
  "authorization_header hs =
     (case hs of
        None \<Rightarrow> None
      | Some kvs \<Rightarrow>
          (if missing (map_of kvs ''Authorization'') then map_of kvs ''authorization''
           else map_of kvs ''Authorization''))"

definition getUserEmailFromToken :: "runtime \<Rightarrow> (string \<times> string) list option \<Rightarrow> json" where
  "getUserEmailFromToken rt hs =
     (case authorization_header hs of
        None \<Rightarrow> JNull
      | Some authorizationHeader \<Rightarrow>
          if authorizationHeader = [] then JNull
          else
            let token = (if take 7 authorizationHeader = ''Bearer ''
                         then drop 7 authorizationHeader else authorizationHeader);
                parts = split_on (CHR ''.'') token
            in if length parts \<noteq> 3 then JNull
               else (case jwt_payload rt (parts ! 1) of
                       None \<Rightarrow> JNull
                     | Some payload \<Rightarrow> payload_identity payload))"

subsection \<open>The handler\<close>

text \<open>
  The pagination loop of the list operation: \<^verbatim>\<open>do { ... } while (exclusiveStartKey)\<close>.
  Each round sends one scan, appends the page to \<open>items\<close>, and goes on from the
  token of the page.
\<close>

function scan_loop ::
  "runtime \<Rightarrow> json \<Rightarrow> string option \<Rightarrow> nat option \<Rightarrow> item list \<Rightarrow> world
     \<Rightarrow> (js_error + item list) \<times> world" where
  "scan_loop rt u s exclusiveStartKey items w =
     (case db_scan rt u s exclusiveStartKey w of
        (Inl e, w') \<Rightarrow> (Inl e, w')
      | (Inr (page, lastEvaluatedKey), w') \<Rightarrow>
          (case lastEvaluatedKey of
             None \<Rightarrow> (Inr (items @ page), w')
           | Some k \<Rightarrow> scan_loop rt u s (Some k) (items @ page) w'))"
  by pat_completeness auto

text \<open>
  The loop ends: a page that carries a token has moved the position forward, and
  the position stays below the size of the table.
\<close>

termination scan_loop
proof (relation "measure (\<lambda>(rt, u, s, k, items, w). length (table w) - start_pos k)")
  show "wf (measure (\<lambda>(rt, u, s, k, items, w). length (table w) - start_pos k))"
    by simp
next
  fix rt u s exclusiveStartKey items w x w' r page lastEvaluatedKey k
  assume "(x, w') = db_scan rt u s exclusiveStartKey w" "x = Inr r"
    "(page, lastEvaluatedKey) = r" "lastEvaluatedKey = Some k"
  then have "db_scan rt u s exclusiveStartKey w = (Inr (page, Some k), w')"
    by simp
  then have "table w' = table w \<and> start_pos exclusiveStartKey < k \<and> k < length (table w)"
    by (auto simp: db_scan_def send_def scan_page_def Let_def
             split: option.splits if_splits)
  then show "((rt, u, s, Some k, items @ page, w'), (rt, u, s, exclusiveStartKey, items, w))
          \<in> measure (\<lambda>(rt, u, s, k, items, w). length (table w) - start_pos k)"
    by (auto simp: start_pos_def [of "Some k"])
qed

declare scan_loop.simps [simp del]

text \<open>The search term reaches the filter only when it is truthy.\<close>

definition search_term :: "event \<Rightarrow> string option" where
  "search_term ev =
     (if missing (param (queryStringParameters ev) ''search'') then None
      else param (queryStringParameters ev) ''search'')"

definition cors_only_headers :: "(string \<times> string) list" where
  "cors_only_headers =
     [(''Content-Type'', ''application/json''), (''Access-Control-Allow-Origin'', ''*'')]"

text \<open>
  The body of the inner \<^verbatim>\<open>try\<close> of the \<^verbatim>\<open>GET\<close> branch: the log line
  \<^verbatim>\<open>`Filtering products for user: ${user}`\<close> converts the identity to a string,
  which may throw, and then the loop runs.
\<close>

definition list_items ::
  "runtime \<Rightarrow> json \<Rightarrow> string option \<Rightarrow> world \<Rightarrow> (js_error + item list) \<times> world" where
  "list_items rt user searchTerm w =
     (case ToString_error (Some user) of
        Some e \<Rightarrow> (Inl e, w)
      | None \<Rightarrow> scan_loop rt user searchTerm None [] w)"

text \<open>
  The \<^verbatim>\<open>GET\<close> branch. Its own \<^verbatim>\<open>try\<close>/\<^verbatim>\<open>catch\<close> turns an error of the inner body
  into a 500; both of its responses are built in place, not by \<^verbatim>\<open>formatResponse\<close>.
\<close>

definition handle_get :: "runtime \<Rightarrow> event \<Rightarrow> world \<Rightarrow> (js_error + response) \<times> world" where
  "handle_get rt ev w =
     (let user = getUserEmailFromToken rt (headers ev);
          searchTerm = search_term ev
      in case list_items rt user searchTerm w of
           (Inr items, w') \<Rightarrow>
             (Inr \<lparr> statusCode = 200, resp_headers = cors_only_headers,
                    resp_body = Some (JArr (map JObj items)) \<rparr>, w')
         | (Inl error, w') \<Rightarrow>
             (Inr \<lparr> statusCode = 500, resp_headers = cors_only_headers,
                    resp_body =
                      Some (message_body (''Failed to retrieve products: '' @ message error)) \<rparr>,
              w'))"

text \<open>\<^verbatim>\<open>productname.toLowerCase()\<close>, a \<^verbatim>\<open>TypeError\<close> unless \<open>productname\<close> is a string.\<close>

definition productname_lower :: "runtime \<Rightarrow> jsval \<Rightarrow> js_error + string \<times> string" where
  "productname_lower rt productname =
     (case productname of
        Some (JStr n) \<Rightarrow> Inr (n, toLowerCase rt n)
      | _ \<Rightarrow> Inl (TypeError ''productname.toLowerCase is not a function''))"

text \<open>
  The speech synthesis and the upload under \<^verbatim>\<open>${productid}.mp3\<close> that follow the
  store write on both \<^verbatim>\<open>POST\<close> and \<^verbatim>\<open>PUT\<close>, then the response.
\<close>

definition speak_and_respond ::
  "runtime \<Rightarrow> string \<Rightarrow> string \<Rightarrow> response \<Rightarrow> world \<Rightarrow> (js_error + response) \<times> world" where
  "speak_and_respond rt txt pid r w =
     (case polly_synthesize rt txt w of
        (Inl e, w1) \<Rightarrow> (Inl e, w1)
      | (Inr audioStream, w1) \<Rightarrow>
          (case s3_upload rt (pid @ ''.mp3'') audioStream w1 of
             (Inl e, w2) \<Rightarrow> (Inl e, w2)
           | (Inr u, w2) \<Rightarrow> (Inr r, w2)))"

text \<open>
  \<open>newItem\<close>: a \<open>userId\<close> that is \<^verbatim>\<open>undefined\<close> is in neither the stored record nor
  the serialised response.
\<close>

definition new_item :: "runtime \<Rightarrow> string \<Rightarrow> jsnum \<Rightarrow> jsnum \<Rightarrow> jsval \<Rightarrow> string \<Rightarrow> item" where
  "new_item rt productname quantity price user searchname =
     [(''productid'', JStr (uuidv4 rt)),
      (''productname'', JStr productname),
      (''quantity'', JNum quantity),
      (''price'', JNum price)]
     @ (case user of None \<Rightarrow> [] | Some u \<Rightarrow> [(''userId'', u)])
     @ [(''searchname'', JStr searchname),
        (''createdAt'', JStr (now_iso rt))]"

definition handle_post :: "runtime \<Rightarrow> json \<Rightarrow> world \<Rightarrow> (js_error + response) \<times> world" where
  "handle_post rt b w =
     (case get_prop b ''productname'' of
        Inl e \<Rightarrow> (Inl e, w)
      | Inr productname \<Rightarrow>
     (case get_prop b ''user'' of
        Inl e \<Rightarrow> (Inl e, w)
      | Inr user \<Rightarrow>
     (case get_prop b ''quantity'' of
        Inl e \<Rightarrow> (Inl e, w)
      | Inr qv \<Rightarrow>
     (case parseInt10 rt qv of
        Inl e \<Rightarrow> (Inl e, w)
      | Inr quantity \<Rightarrow>
     (case get_prop b ''price'' of
        Inl e \<Rightarrow> (Inl e, w)
      | Inr pv \<Rightarrow>
     (case parseFloat rt pv of
        Inl e \<Rightarrow> (Inl e, w)
      | Inr price \<Rightarrow>
          if \<not> truthy productname \<or> isNaN quantity \<or> isNaN price then
            (Inr (formatResponse 400
               (message_body ''Missing productname, quantity, or price in request body'')), w)
          else
            (case productname_lower rt productname of
               Inl e \<Rightarrow> (Inl e, w)
             | Inr (name, searchname) \<Rightarrow>
                 let newItem = new_item rt name quantity price user searchname
                 in (case db_put rt newItem w of
                       (Inl e, w1) \<Rightarrow> (Inl e, w1)
                     | (Inr u, w1) \<Rightarrow>
                         speak_and_respond rt name (uuidv4 rt)
                           (formatResponse 201 (JObj newItem)) w1))))))))"

definition handle_put ::
  "runtime \<Rightarrow> string \<Rightarrow> json \<Rightarrow> world \<Rightarrow> (js_error + response) \<times> world" where
  "handle_put rt productId b w =
     (case get_prop b ''productname'' of
        Inl e \<Rightarrow> (Inl e, w)
      | Inr productname \<Rightarrow>
     (case get_prop b ''quantity'' of
        Inl e \<Rightarrow> (Inl e, w)
      | Inr qv \<Rightarrow>
     (case parseInt10 rt qv of
        Inl e \<Rightarrow> (Inl e, w)
      | Inr quantity \<Rightarrow>
     (case get_prop b ''price'' of
        Inl e \<Rightarrow> (Inl e, w)
      | Inr pv \<Rightarrow>
     (case parseFloat rt pv of
        Inl e \<Rightarrow> (Inl e, w)
      | Inr price \<Rightarrow>
          if productId = [] \<or> \<not> truthy productname \<or> isNaN quantity \<or> isNaN price then
            (Inr (formatResponse 400
               (message_body
                  ''Missing product ID, productname, quantity, or price in request'')), w)
          else
            (case productname_lower rt productname of
               Inl e \<Rightarrow> (Inl e, w)
             | Inr (name, searchname) \<Rightarrow>
                 (case db_update rt productId name quantity price searchname w of
                    (Inl e, w1) \<Rightarrow> (Inl e, w1)
                  | (Inr None, w1) \<Rightarrow>
                      (Inr (formatResponse 404
                         (message_body ''Item not found for update (or issue updating)'')), w1)
                  | (Inr (Some attributes), w1) \<Rightarrow>
                      speak_and_respond rt name productId
                        (formatResponse 200 (JObj attributes)) w1)))))))"

definition handle_delete :: "runtime \<Rightarrow> string \<Rightarrow> world \<Rightarrow> (js_error + response) \<times> world" where
  "handle_delete rt productId w =
     (if productId = [] then
        (Inr (formatResponse 400 (message_body ''Missing product ID in path'')), w)
      else
        (case db_delete rt productId w of
           (Inl e, w1) \<Rightarrow> (Inl e, w1)
         | (Inr None, w1) \<Rightarrow>
             (Inr (formatResponse 404 (message_body ''Item not found for deletion'')), w1)
         | (Inr (Some attributes), w1) \<Rightarrow>
             (Inr \<lparr> statusCode = 204,
                    resp_headers =
                      [(''Access-Control-Allow-Origin'', ''*''),
                       (''Access-Control-Allow-Methods'', ''GET,POST,PUT,DELETE,OPTIONS''),
                       (''Access-Control-Allow-Headers'',
                        ''Content-Type,X-Amz-Date,Authorization,X-Api-Key,X-Amz-Security-Token'')],
                    resp_body = None \<rparr>, w1)))"

text \<open>
  \<^verbatim>\<open>pathParameters.id\<close>. The handler tests it with \<^verbatim>\<open>!productId\<close> before any use,
  which \<^verbatim>\<open>undefined\<close> and the empty string both pass: both are the empty string
  here.
\<close>

definition path_id :: "event \<Rightarrow> string" where
  "path_id ev = (case param (pathParameters ev) ''id'' of None \<Rightarrow> [] | Some p \<Rightarrow> p)"

text \<open>
  The body of the outer \<^verbatim>\<open>try\<close>: the request body is parsed first, for every
  method, then the method selects the branch. \<open>Inl\<close> is an exception that reaches
  the outer \<^verbatim>\<open>catch\<close>.
\<close>

definition handler_try :: "runtime \<Rightarrow> event \<Rightarrow> world \<Rightarrow> (js_error + response) \<times> world" where
  "handler_try rt ev w =
     (case parse_body (body ev) of
        Inl e \<Rightarrow> (Inl e, w)
      | Inr b \<Rightarrow>
          if httpMethod ev = ''GET'' then handle_get rt ev w
          else if httpMethod ev = ''POST'' then handle_post rt b w
          else if httpMethod ev = ''PUT'' then
            handle_put rt (path_id ev) b w
          else if httpMethod ev = ''DELETE'' then
            handle_delete rt (path_id ev) w
          else if httpMethod ev = ''OPTIONS'' then (Inr (formatResponse 200 (JObj [])), w)
          else (Inr (formatResponse 405 (message_body ''Method Not Allowed'')), w))"

text \<open>\<^verbatim>\<open>exports.handler\<close>: the outer \<^verbatim>\<open>catch\<close> turns every exception into a 500.\<close>

definition handler :: "runtime \<Rightarrow> event \<Rightarrow> world \<Rightarrow> response \<times> world" where
  "handler rt ev w =
     (case handler_try rt ev w of
        (Inr r, w') \<Rightarrow> (r, w')
      | (Inl error, w') \<Rightarrow>
          (formatResponse 500 (message_body (''Internal Server Error: '' @ message error)), w'))"

subsection \<open>Notions used in the statements\<close>

text \<open>The requests sent between two states.\<close>

definition new_calls :: "world \<Rightarrow> world \<Rightarrow> (call \<times> outcome) list" where
  "new_calls w w' = drop (length (calls w)) (calls w')"





text \<open>
  Input that passes the validation of \<^verbatim>\<open>POST\<close> and \<^verbatim>\<open>PUT\<close> and can be written: the
  product name is a non-empty string \<open>n\<close>, and \<^verbatim>\<open>parseInt\<close> and \<^verbatim>\<open>parseFloat\<close> return
  the numbers \<open>q\<close> and \<open>p\<close>, neither of them \<open>NaN\<close>.
\<close>

definition valid_input :: "runtime \<Rightarrow> json \<Rightarrow> string \<Rightarrow> jsnum \<Rightarrow> jsnum \<Rightarrow> bool" where
  "valid_input rt b n q p =
     (member b ''productname'' = Some (JStr n) \<and> n \<noteq> [] \<and>
      parseInt10 rt (member b ''quantity'') = Inr q \<and> q \<noteq> NaN \<and>
      parseFloat rt (member b ''price'') = Inr p \<and> p \<noteq> NaN)"

text \<open>The records listed in the body of a response.\<close>

definition listed :: "response \<Rightarrow> json list" where
  "listed r = (case resp_body r of Some (JArr xs) \<Rightarrow> xs | _ \<Rightarrow> [])"

subsection \<open>Example requests\<close>

text \<open>
  The values of \<^verbatim>\<open>parseInt(v, 10)\<close>, \<^verbatim>\<open>parseFloat(v)\<close> and \<^verbatim>\<open>s.toLowerCase()\<close> on
  the arguments that occur in the examples: the strings \<^verbatim>\<open>"3"\<close> and \<^verbatim>\<open>"9.99"\<close>, the
  numbers 5 and 12.5, \<^verbatim>\<open>undefined\<close>, and the names \<^verbatim>\<open>"Red Mug"\<close> and \<^verbatim>\<open>"Blue Mug"\<close>.
  The double nearest to 9.99 is \<open>5623870034678907 / 2 ^ 49\<close>. The example runtime is
  meant for these arguments only.
\<close>

definition demo_parseInt :: "jsval \<Rightarrow> jsnum" where
  "demo_parseInt v =
     (if v = Some (JStr ''3'') then Num 3
      else if v = Some (JNum (Num 5)) then Num 5
      else NaN)"

definition demo_parseFloat :: "jsval \<Rightarrow> jsnum" where
  "demo_parseFloat v =
     (if v = Some (JStr ''9.99'') then Num (5623870034678907 / 562949953421312)
      else if v = Some (JNum (Num (25 / 2))) then Num (25 / 2)
      else NaN)"

definition demo_toLowerCase :: "string \<Rightarrow> string" where
  "demo_toLowerCase s =
     (if s = ''Red Mug'' then ''red mug''
      else if s = ''Blue Mug'' then ''blue mug''
      else s)"

text \<open>
  A runtime in which no request fails and every page of a scan reads one record.
  The one token segment it decodes is the base64 text of \<^verbatim>\<open>{"email":"a@b.c"}\<close>.
\<close>

definition demo_rt :: runtime where
  "demo_rt =
     \<lparr> fault = (\<lambda>n. None),
       page_limit = (\<lambda>p. 0),
       jwt_payload =
         (\<lambda>seg. if seg = ''eyJlbWFpbCI6ImFAYi5jIn0''
                 then Some (JObj [(''email'', JStr ''a@b.c'')]) else None),
       uuidv4 = ''6f1c2d9e-0000-4000-8000-000000000001'',
       now_iso = ''2024-01-01T00:00:00.000Z'',
       synth = (\<lambda>txt. ''mp3:'' @ txt),
       parseInt_value = demo_parseInt,
       parseFloat_value = demo_parseFloat,
       toLowerCase = demo_toLowerCase \<rparr>"

definition empty_world :: world where
  "empty_world = \<lparr> table = [], bucket = [], calls = [] \<rparr>"

definition options_malformed :: event where
  "options_malformed =
     \<lparr> httpMethod = ''OPTIONS'', pathParameters = None, queryStringParameters = None,
       headers = None,
       body = Some (Malformed ''Unexpected end of JSON input'') \<rparr>"

definition options_plain :: event where
  "options_plain =
     \<lparr> httpMethod = ''OPTIONS'', pathParameters = None, queryStringParameters = None,
       headers = None, body = None \<rparr>"

definition post_no_name :: event where
  "post_no_name =
     \<lparr> httpMethod = ''POST'', pathParameters = None, queryStringParameters = None,
       headers = None,
       body = Some (Parsed (JObj [(''quantity'', JStr ''3''), (''price'', JStr ''9.99'')])) \<rparr>"



definition get_all :: event where
  "get_all =
     \<lparr> httpMethod = ''GET'', pathParameters = None, queryStringParameters = None,
       headers = None, body = None \<rparr>"

definition put_blue_mug :: event where
  "put_blue_mug =
     \<lparr> httpMethod = ''PUT'', pathParameters = Some [(''id'', ''abc123'')],
       queryStringParameters = None, headers = None,
       body = Some (Parsed (JObj [(''productname'', JStr ''Blue Mug''),
                                  (''quantity'', JNum (Num 5)),
                                  (''price'', JNum (Num (25 / 2)))])) \<rparr>"

definition delete_unknown :: event where
  "delete_unknown =
     \<lparr> httpMethod = ''DELETE'', pathParameters = Some [(''id'', ''doesnotexist'')],
       queryStringParameters = None, headers = None, body = None \<rparr>"

definition red_mug :: item where
  "red_mug =
     [(''productid'', JStr ''abc123''), (''productname'', JStr ''Red Mug''),
      (''quantity'', JNum (Num 3)),
      (''price'', JNum (Num (5623870034678907 / 562949953421312))),
      (''userId'', JStr ''alice''), (''searchname'', JStr ''red mug''),
      (''createdAt'', JStr ''2023-12-31T08:00:00.000Z'')]"

definition one_mug_world :: world where
  "one_mug_world = \<lparr> table = [red_mug], bucket = [(''abc123.mp3'', ''mp3:Red Mug'')], calls = [] \<rparr>"


definition get_mugs :: event where
  "get_mugs =
     \<lparr> httpMethod = ''GET'', pathParameters = None,
       queryStringParameters = Some [(''search'', ''mug'')],
       headers = Some [(''Authorization'',
                        ''Bearer eyJhbGciOiJub25lIn0.eyJlbWFpbCI6ImFAYi5jIn0.sig'')],
       body = None \<rparr>"

definition shelf_world :: world where
  "shelf_world =
     \<lparr> table =
         [[(''productid'', JStr ''1''), (''userId'', JStr ''a@b.c''), (''searchname'', JStr ''red mug'')],
          [(''productid'', JStr ''2''), (''userId'', JStr ''bob''), (''searchname'', JStr ''blue mug'')],
          [(''productid'', JStr ''3''), (''userId'', JStr ''a@b.c''), (''searchname'', JStr ''cup'')],
          [(''productid'', JStr ''4''), (''userId'', JStr ''a@b.c''), (''searchname'', JStr ''mug'')]],
       bucket = [], calls = [] \<rparr>"

text \<open>A bearer token whose middle segment is the one \<open>demo_rt\<close> decodes.\<close>

definition demo_token :: string where
  "demo_token = ''Bearer eyJhbGciOiJub25lIn0.eyJlbWFpbCI6ImFAYi5jIn0.sig''"

text \<open>A \<^verbatim>\<open>POST\<close> whose body is the JSON text \<^verbatim>\<open>null\<close>.\<close>

definition post_null :: event where
  "post_null =
     \<lparr> httpMethod = ''POST'', pathParameters = None, queryStringParameters = None,
       headers = None, body = Some (Parsed JNull) \<rparr>"

text \<open>
  A \<^verbatim>\<open>GET\<close> with an unsigned token whose middle segment is the base64 text of
  \<^verbatim>\<open>{"email":{"toString":null}}\<close>, and a runtime that decodes it.
\<close>

definition forged_rt :: runtime where
  "forged_rt =
     demo_rt\<lparr>jwt_payload :=
       (\<lambda>seg. if seg = ''eyJlbWFpbCI6eyJ0b1N0cmluZyI6bnVsbH19''
               then Some (JObj [(''email'', JObj [(''toString'', JNull)])]) else None)\<rparr>"

definition get_forged :: event where
  "get_forged =
     \<lparr> httpMethod = ''GET'', pathParameters = None, queryStringParameters = None,
       headers = Some [(''Authorization'',
                        ''Bearer eyJhbGciOiJub25lIn0.eyJlbWFpbCI6eyJ0b1N0cmluZyI6bnVsbH19.sig'')],
       body = None \<rparr>"

section \<open>Properties\<close>

subsection \<open>The request log\<close>






















subsection \<open>The shapes of a response\<close>

lemma speak_and_respond_response:
  "speak_and_respond rt txt pid r0 w = (Inr r, w') \<Longrightarrow> r = r0"
  by (auto simp: speak_and_respond_def polly_synthesize_def s3_upload_def
           split: sum.splits prod.splits option.splits)

lemma handle_post_response:
  "handle_post rt b w = (Inr r, w') \<Longrightarrow>
     (\<exists>j. r = formatResponse 400 j) \<or> (\<exists>j. r = formatResponse 201 j)"
  by (auto simp: handle_post_def Let_def db_put_def
           dest!: speak_and_respond_response
           split: sum.splits prod.splits option.splits if_splits)

lemma handle_put_response:
  "handle_put rt pid b w = (Inr r, w') \<Longrightarrow>
     (\<exists>j. r = formatResponse 400 j) \<or> (\<exists>j. r = formatResponse 404 j) \<or>
     (\<exists>j. r = formatResponse 200 j)"
  by (auto simp: handle_put_def Let_def
           dest!: speak_and_respond_response
           split: sum.splits prod.splits option.splits if_splits)

lemma handle_delete_response:
  "handle_delete rt pid w = (Inr r, w') \<Longrightarrow>
     (\<exists>j. r = formatResponse 400 j) \<or> (\<exists>j. r = formatResponse 404 j) \<or>
     (statusCode r = 204 \<and> resp_body r = None \<and> resp_headers r = tl (resp_headers (formatResponse 204 JNull)))"
  by (auto simp: handle_delete_def Let_def formatResponse_def
           split: sum.splits prod.splits option.splits if_splits)

lemma handle_get_response:
  "handle_get rt ev w = (res, w') \<Longrightarrow>
     \<exists>r. res = Inr r \<and> resp_headers r = cors_only_headers \<and>
         (statusCode r = 200 \<or> statusCode r = 500)"
  by (auto simp: handle_get_def Let_def
           split: sum.splits prod.splits option.splits if_splits)

text \<open>The shapes a response of the handler can have.\<close>

lemma handler_response:
  assumes "handler rt ev w = (r, w')"
  shows "(httpMethod ev = ''GET'' \<and> (\<exists>b. parse_body (body ev) = Inr b) \<and>
            resp_headers r = cors_only_headers \<and> (statusCode r = 200 \<or> statusCode r = 500))
         \<or> (httpMethod ev = ''DELETE'' \<and> statusCode r = 204 \<and> resp_body r = None \<and>
              resp_headers r = tl (resp_headers (formatResponse 204 JNull)))
         \<or> ((httpMethod ev \<noteq> ''GET'' \<or> (\<exists>e. parse_body (body ev) = Inl e)) \<and>
             (\<exists>code j. r = formatResponse code j \<and> code \<in> {200, 201, 400, 404, 405, 500}))"
proof (cases "parse_body (body ev)")
  case (Inl e)
  with assms show ?thesis
    by (auto simp: handler_def handler_try_def)
next
  case (Inr b)
  obtain res where res: "handler_try rt ev w = (res, w')"
    using assms by (auto simp: handler_def split: prod.splits sum.splits)
  show ?thesis
  proof (cases res)
    case e: (Inl e)
    from res e assms have r: "r = formatResponse 500 (message_body (''Internal Server Error: '' @ message e))"
      by (simp add: handler_def)
    from res e Inr have "httpMethod ev \<noteq> ''GET''"
      by (auto simp: handler_try_def dest: handle_get_response)
    with r show ?thesis by auto
  next
    case r': (Inr r')
    with res assms have [simp]: "r' = r" by (simp add: handler_def)
    from res r' Inr show ?thesis
      by (auto simp: handler_try_def split: if_splits
               dest!: handle_get_response handle_post_response handle_put_response
                      handle_delete_response)
  qed
qed

subsection \<open>What a request does to the table\<close>

lemma map_of_set_attrs:
  "map_of (set_attrs pn q p sn it) =
     (map_of it)(''productname'' \<mapsto> JStr pn, ''quantity'' \<mapsto> JNum q, ''price'' \<mapsto> JNum p,
                 ''searchname'' \<mapsto> JStr sn)"
  by (simp add: set_attrs_def update_conv')

lemma has_key_set_attrs: "has_key pid (set_attrs pn q p sn it) = has_key pid it"
  by (simp add: has_key_def map_of_set_attrs)

lemma find_update_existing:
  "find (has_key pid) tbl = Some old \<Longrightarrow>
     find (has_key pid) (update_table pid pn q p sn tbl) = Some (set_attrs pn q p sn old)"
proof -
  assume old: "find (has_key pid) tbl = Some old"
  then have ex: "\<exists>it \<in> set tbl. has_key pid it"
    by (auto simp: find_Some_iff)
  have "find (has_key pid) (map (\<lambda>it. if has_key pid it then set_attrs pn q p sn it else it) tbl)
          = Some (set_attrs pn q p sn old)"
    using old by (induction tbl) (auto simp: has_key_set_attrs)
  with ex show ?thesis by (simp add: update_table_def)
qed

lemma update_table_missing:
  "find (has_key pid) tbl = None \<Longrightarrow>
     update_table pid pn q p sn tbl = tbl @ [set_attrs pn q p sn [(''productid'', JStr pid)]]"
  by (auto simp: update_table_def find_None_iff)

lemma find_update_missing:
  "find (has_key pid) tbl = None \<Longrightarrow>
     find (has_key pid) (update_table pid pn q p sn tbl)
       = Some (set_attrs pn q p sn [(''productid'', JStr pid)])"
proof -
  assume none: "find (has_key pid) tbl = None"
  have k: "has_key pid (set_attrs pn q p sn [(''productid'', JStr pid)])"
    by (simp add: has_key_set_attrs) (simp add: has_key_def)
  from none have "find (has_key pid) (tbl @ [set_attrs pn q p sn [(''productid'', JStr pid)]])
      = Some (set_attrs pn q p sn [(''productid'', JStr pid)])"
    using k by (induction tbl) (auto split: if_splits)
  with none show ?thesis by (simp add: update_table_missing)
qed

lemma find_update_table:
  "\<exists>it. find (has_key pid) (update_table pid pn q p sn tbl) = Some it \<and>
        map_of it ''productname'' = Some (JStr pn) \<and> map_of it ''searchname'' = Some (JStr sn)"
proof (cases "find (has_key pid) tbl")
  case None
  from find_update_missing [OF this] show ?thesis
    by (auto simp: map_of_set_attrs)
next
  case (Some old)
  from find_update_existing [OF this] show ?thesis
    by (auto simp: map_of_set_attrs)
qed

lemma send_frame: "send rt c w = (res, w') \<Longrightarrow> table w' = table w \<and> bucket w' = bucket w"
  by (auto simp: send_def split: option.splits)

lemma speak_and_respond_effect:
  "speak_and_respond rt txt pid r0 w = (res, w') \<Longrightarrow>
     table w' = table w \<and> (\<forall>r. res = Inr r \<longrightarrow> r = r0)"
  by (auto simp: speak_and_respond_def polly_synthesize_def s3_upload_def
           split: sum.splits prod.splits option.splits dest!: send_frame)


lemma db_update_effect:
  "db_update rt pid pn q p sn w = (res, w') \<Longrightarrow>
     (\<exists>e. res = Inl e \<and> table w' = table w) \<or>
     (res = Inr (find (has_key pid) (table w')) \<and>
      table w' = update_table pid pn q p sn (table w))"
  by (auto simp: db_update_def Let_def split: prod.splits option.splits dest!: send_frame)


text \<open>
  The parsers either return a number or raise what \<^verbatim>\<open>ToString\<close> raises on their
  argument.
\<close>

lemma parseInt10_cases:
  "(ToString_error v = None \<and> parseInt10 rt v = Inr (parseInt_value rt v)) \<or>
   (\<exists>e. ToString_error v = Some e \<and> parseInt10 rt v = Inl e)"
  by (cases "ToString_error v") (simp_all add: parseInt10_def)

lemma parseFloat_cases:
  "(ToString_error v = None \<and> parseFloat rt v = Inr (parseFloat_value rt v)) \<or>
   (\<exists>e. ToString_error v = Some e \<and> parseFloat rt v = Inl e)"
  by (cases "ToString_error v") (simp_all add: parseFloat_def)

lemma valid_input_not_null: "valid_input rt b n q p \<Longrightarrow> b \<noteq> JNull"
  by (auto simp: valid_input_def member_def)

lemma productname_lower_not_string:
  assumes "\<forall>n. v \<noteq> Some (JStr n)"
  shows "productname_lower rt v = Inl (TypeError ''productname.toLowerCase is not a function'')"
  using assms
  by (cases v) (auto simp: productname_lower_def split: json.splits)

text \<open>\<^verbatim>\<open>POST\<close>: the branch taken, by what the body holds.\<close>

lemma handle_post_null: "\<exists>e. handle_post rt JNull w = (Inl e, w)"
  by (simp add: handle_post_def get_prop_def)

lemma handle_post_quantity_throws:
  assumes "b \<noteq> JNull" and "parseInt10 rt (member b ''quantity'') = Inl e"
  shows "handle_post rt b w = (Inl e, w)"
  using assms by (simp add: handle_post_def get_prop_def)

lemma handle_post_price_throws:
  assumes "b \<noteq> JNull" and "parseInt10 rt (member b ''quantity'') = Inr q"
    and "parseFloat rt (member b ''price'') = Inl e"
  shows "handle_post rt b w = (Inl e, w)"
  using assms by (simp add: handle_post_def get_prop_def)

lemma handle_post_invalid:
  assumes "b \<noteq> JNull" and "parseInt10 rt (member b ''quantity'') = Inr q"
    and "parseFloat rt (member b ''price'') = Inr p"
    and "\<not> truthy (member b ''productname'') \<or> isNaN q \<or> isNaN p"
  shows "handle_post rt b w =
           (Inr (formatResponse 400
              (message_body ''Missing productname, quantity, or price in request body'')), w)"
  using assms by (simp add: handle_post_def get_prop_def)





text \<open>\<^verbatim>\<open>PUT\<close>: the branch taken, by what the path and the body hold.\<close>

lemma handle_put_null: "\<exists>e. handle_put rt pid JNull w = (Inl e, w)"
  by (simp add: handle_put_def get_prop_def)

lemma handle_put_quantity_throws:
  assumes "b \<noteq> JNull" and "parseInt10 rt (member b ''quantity'') = Inl e"
  shows "handle_put rt pid b w = (Inl e, w)"
  using assms by (simp add: handle_put_def get_prop_def)

lemma handle_put_price_throws:
  assumes "b \<noteq> JNull" and "parseInt10 rt (member b ''quantity'') = Inr q"
    and "parseFloat rt (member b ''price'') = Inl e"
  shows "handle_put rt pid b w = (Inl e, w)"
  using assms by (simp add: handle_put_def get_prop_def)

lemma handle_put_invalid:
  assumes "b \<noteq> JNull" and "parseInt10 rt (member b ''quantity'') = Inr q"
    and "parseFloat rt (member b ''price'') = Inr p"
    and "pid = [] \<or> \<not> truthy (member b ''productname'') \<or> isNaN q \<or> isNaN p"
  shows "handle_put rt pid b w =
           (Inr (formatResponse 400
              (message_body ''Missing product ID, productname, quantity, or price in request'')),
            w)"
  using assms by (simp add: handle_put_def get_prop_def)

lemma handle_put_not_string:
  assumes "b \<noteq> JNull" and "parseInt10 rt (member b ''quantity'') = Inr q"
    and "parseFloat rt (member b ''price'') = Inr p"
    and "\<not> (pid = [] \<or> \<not> truthy (member b ''productname'') \<or> isNaN q \<or> isNaN p)"
    and "\<forall>n. member b ''productname'' \<noteq> Some (JStr n)"
  shows "\<exists>e. handle_put rt pid b w = (Inl e, w)"
  using assms(1-4) productname_lower_not_string [OF assms(5), of rt]
  by (simp add: handle_put_def get_prop_def)

lemma handle_put_accepted:
  assumes "valid_input rt b n q p" and "pid \<noteq> []"
  shows "handle_put rt pid b w =
           (case db_update rt pid n q p (toLowerCase rt n) w of
              (Inl e, w1) \<Rightarrow> (Inl e, w1)
            | (Inr None, w1) \<Rightarrow>
                (Inr (formatResponse 404
                   (message_body ''Item not found for update (or issue updating)'')), w1)
            | (Inr (Some attributes), w1) \<Rightarrow>
                speak_and_respond rt n pid (formatResponse 200 (JObj attributes)) w1)"
  using assms valid_input_not_null [OF assms(1)]
  by (simp add: valid_input_def handle_put_def get_prop_def Let_def productname_lower_def
        isNaN_def)

lemma handle_put_rejected:
  assumes "handle_put rt pid b w = (res, w')"
    and "\<not> (pid \<noteq> [] \<and> (\<exists>n q p. valid_input rt b n q p))"
  shows "w' = w \<and> (\<forall>r. res = Inr r \<longrightarrow> statusCode r = 400)"
proof (cases "b = JNull")
  case True
  with handle_put_null [of rt pid w] assms(1) show ?thesis by auto
next
  case False
  show ?thesis
  proof (cases "parseInt10 rt (member b ''quantity'')")
    case (Inl e)
    from handle_put_quantity_throws [OF False Inl, of pid w] assms(1) show ?thesis by auto
  next
    case q: (Inr q)
    show ?thesis
    proof (cases "parseFloat rt (member b ''price'')")
      case (Inl e)
      from handle_put_price_throws [OF False q Inl, of pid w] assms(1) show ?thesis by auto
    next
      case p: (Inr p)
      show ?thesis
      proof (cases "pid = [] \<or> \<not> truthy (member b ''productname'') \<or> isNaN q \<or> isNaN p")
        case True
        from handle_put_invalid [OF False q p True, of w] assms(1) show ?thesis
          by (auto simp: formatResponse_def)
      next
        case valid: False
        have "\<forall>n. member b ''productname'' \<noteq> Some (JStr n)"
        proof (intro allI notI)
          fix n assume m: "member b ''productname'' = Some (JStr n)"
          with valid have "n \<noteq> []" by simp
          with m valid q p have "valid_input rt b n q p"
            by (simp add: valid_input_def isNaN_def)
          with valid assms(2) show False by blast
        qed
        from handle_put_not_string [OF False q p valid this, of w] assms(1)
        show ?thesis by auto
      qed
    qed
  qed
qed

lemma handle_put_effect:
  assumes "handle_put rt pid b w = (res, w')"
  shows "(table w' = table w \<and> (\<forall>r. res = Inr r \<longrightarrow> statusCode r = 400)) \<or>
         (\<exists>n q p. valid_input rt b n q p \<and>
            table w' = update_table pid n q p (toLowerCase rt n) (table w) \<and>
            (\<forall>r. res = Inr r \<longrightarrow>
               (\<exists>it. find (has_key pid) (table w') = Some it \<and>
                     r = formatResponse 200 (JObj it))))"
proof (cases "pid \<noteq> [] \<and> (\<exists>n q p. valid_input rt b n q p)")
  case False
  from handle_put_rejected [OF assms False] show ?thesis by simp
next
  case True
  then obtain n q p where n: "valid_input rt b n q p" and pid: "pid \<noteq> []"
    by blast
  obtain x w1 where upd: "db_update rt pid n q p (toLowerCase rt n) w = (x, w1)"
    by (cases "db_update rt pid n q p (toLowerCase rt n) w")
  from db_update_effect [OF upd] show ?thesis
  proof
    assume "\<exists>e. x = Inl e \<and> table w1 = table w"
    with upd assms show ?thesis
      by (auto simp: handle_put_accepted [OF n pid])
  next
    assume ok: "x = Inr (find (has_key pid) (table w1)) \<and>
                table w1 = update_table pid n q p (toLowerCase rt n) (table w)"
    with find_update_table [of pid n q p "toLowerCase rt n" "table w"]
    obtain it where it: "find (has_key pid) (table w1) = Some it"
      by auto
    with ok upd assms
    have "speak_and_respond rt n pid (formatResponse 200 (JObj it)) w1 = (res, w')"
      by (simp add: handle_put_accepted [OF n pid])
    from speak_and_respond_effect [OF this]
    have "table w' = table w1" and "\<forall>r. res = Inr r \<longrightarrow> r = formatResponse 200 (JObj it)"
      by simp_all
    with ok it n show ?thesis
      by (intro disjI2 exI [of _ n] exI [of _ q] exI [of _ p]) simp
  qed
qed


subsection \<open>Errors\<close>




subsection \<open>Response headers\<close>

text \<open>
  C8, as amended. Every response carries \<^verbatim>\<open>Access-Control-Allow-Origin: *\<close>; every
  response other than the 204 carries \<^verbatim>\<open>Content-Type: application/json\<close>; every
  response to a method other than \<^verbatim>\<open>GET\<close> also carries the allowed-methods and the
  allowed-headers header. The two responses that the \<^verbatim>\<open>GET\<close> branch builds (its 200
  and its 500) carry the content type and the allowed origin only.
\<close>

theorem response_headers:
  assumes "handler rt ev w = (r, w')"
  shows "map_of (resp_headers r) ''Access-Control-Allow-Origin'' = Some ''*'' \<and>
         (statusCode r \<noteq> 204 \<longrightarrow>
            map_of (resp_headers r) ''Content-Type'' = Some ''application/json'') \<and>
         (httpMethod ev \<noteq> ''GET'' \<longrightarrow>
            map_of (resp_headers r) ''Access-Control-Allow-Methods''
              = Some ''GET,POST,PUT,DELETE,OPTIONS'' \<and>
            map_of (resp_headers r) ''Access-Control-Allow-Headers''
              = Some ''Content-Type,X-Amz-Date,Authorization,X-Api-Key,X-Amz-Security-Token'') \<and>
         (httpMethod ev = ''GET'' \<and> (\<forall>m. body ev \<noteq> Some (Malformed m)) \<longrightarrow>
            resp_headers r =
              [(''Content-Type'', ''application/json''), (''Access-Control-Allow-Origin'', ''*'')])"
proof -
  have "(\<forall>m. body ev \<noteq> Some (Malformed m)) \<Longrightarrow> \<exists>b. parse_body (body ev) = Inr b"
    by (auto simp: parse_body_def split: option.splits body_text.splits)
  with handler_response [OF assms] show ?thesis
    by (auto simp: formatResponse_def cors_only_headers_def)
qed

theorem response_headers_witness:
  "handler demo_rt post_no_name empty_world
     = (fst (handler demo_rt post_no_name empty_world),
        snd (handler demo_rt post_no_name empty_world)) \<and>
   httpMethod post_no_name \<noteq> ''GET'' \<and>
   map_of (resp_headers (fst (handler demo_rt post_no_name empty_world)))
     ''Access-Control-Allow-Methods'' = Some ''GET,POST,PUT,DELETE,OPTIONS''"
  using response_headers [of demo_rt post_no_name empty_world
          "fst (handler demo_rt post_no_name empty_world)"
          "snd (handler demo_rt post_no_name empty_world)"]
  by (simp add: post_no_name_def)

text \<open>
  C8 as stated fails: the 200 of a \<^verbatim>\<open>GET\<close> carries neither an allowed-methods nor an
  allowed-headers header.
\<close>

theorem get_response_headers_counterexample:
  "map_of (resp_headers (fst (handler demo_rt get_all empty_world)))
     ''Access-Control-Allow-Methods'' = None"
proof -
  have "handler demo_rt get_all empty_world
          = (fst (handler demo_rt get_all empty_world), snd (handler demo_rt get_all empty_world))"
    by simp
  from handler_response [OF this]
  have "resp_headers (fst (handler demo_rt get_all empty_world)) = cors_only_headers"
    by (auto simp: get_all_def parse_body_def)
  then show ?thesis
    by (simp add: cors_only_headers_def)
qed

subsection \<open>Preflight\<close>

text \<open>
  C7, as amended. For every \<^verbatim>\<open>OPTIONS\<close> request, whatever its headers, path
  parameters and query parameters, the handler sends no request to any service and
  leaves the state as it is; the response is 200 with an empty JSON object when
  the body is absent or parses, and the 500 of the outer \<^verbatim>\<open>catch\<close> when the body is
  malformed JSON, because the body is parsed before the method is looked at.
\<close>

theorem options_preflight:
  assumes "httpMethod ev = ''OPTIONS''"
  shows "handler rt ev w =
           ((case body ev of
               Some (Malformed m) \<Rightarrow>
                 formatResponse 500 (message_body (''Internal Server Error: '' @ m))
             | _ \<Rightarrow> formatResponse 200 (JObj [])), w)"
  using assms
  by (simp add: handler_def handler_try_def parse_body_def
           split: option.splits body_text.splits)

theorem options_preflight_witness:
  "httpMethod options_plain = ''OPTIONS'' \<and>
   handler demo_rt options_plain empty_world = (formatResponse 200 (JObj []), empty_world)"
  using options_preflight [of options_plain demo_rt empty_world]
  by (simp add: options_plain_def)

text \<open>
  C7 as stated fails: an \<^verbatim>\<open>OPTIONS\<close> request with a malformed JSON body is answered
  with 500.
\<close>

theorem options_malformed_body_counterexample:
  "statusCode (fst (handler demo_rt options_malformed empty_world)) = 500"
  by (simp add: handler_def handler_try_def parse_body_def options_malformed_def
                formatResponse_def)

subsection \<open>Validation\<close>

lemma handle_post_invalid_outcome:
  assumes "member b ''productname'' = None \<or> member b ''productname'' = Some (JStr [])
           \<or> (\<forall>q. parseInt10 rt (member b ''quantity'') = Inr q \<longrightarrow> q = NaN)
           \<or> (\<forall>p. parseFloat rt (member b ''price'') = Inr p \<longrightarrow> p = NaN)"
  shows "(\<exists>e. handle_post rt b w = (Inl e, w) \<and>
              (b = JNull \<or> ToString_error (member b ''quantity'') \<noteq> None
               \<or> ToString_error (member b ''price'') \<noteq> None)) \<or>
         (\<exists>r. handle_post rt b w = (Inr r, w) \<and> statusCode r = 400 \<and>
              \<not> (b = JNull \<or> ToString_error (member b ''quantity'') \<noteq> None
                 \<or> ToString_error (member b ''price'') \<noteq> None))"
proof (cases "b = JNull")
  case True
  with handle_post_null [of rt w] show ?thesis by auto
next
  case False
  show ?thesis
  proof (cases "parseInt10 rt (member b ''quantity'')")
    case (Inl e)
    with parseInt10_cases [of "member b ''quantity''" rt]
    have "ToString_error (member b ''quantity'') \<noteq> None" by auto
    with handle_post_quantity_throws [OF False Inl, of w] show ?thesis by auto
  next
    case q: (Inr q)
    with parseInt10_cases [of "member b ''quantity''" rt]
    have tq: "ToString_error (member b ''quantity'') = None" by auto
    show ?thesis
    proof (cases "parseFloat rt (member b ''price'')")
      case (Inl e)
      with parseFloat_cases [of "member b ''price''" rt]
      have "ToString_error (member b ''price'') \<noteq> None" by auto
      with handle_post_price_throws [OF False q Inl, of w] show ?thesis by auto
    next
      case p: (Inr p)
      with parseFloat_cases [of "member b ''price''" rt]
      have tp: "ToString_error (member b ''price'') = None" by auto
      from assms q p have "\<not> truthy (member b ''productname'') \<or> isNaN q \<or> isNaN p"
        by (auto simp: isNaN_def)
      from handle_post_invalid [OF False q p this, of w] False tq tp show ?thesis
        by (simp add: formatResponse_def)
    qed
  qed
qed

lemma handle_put_invalid_outcome:
  assumes "member b ''productname'' = None \<or> member b ''productname'' = Some (JStr [])
           \<or> (\<forall>q. parseInt10 rt (member b ''quantity'') = Inr q \<longrightarrow> q = NaN)
           \<or> (\<forall>p. parseFloat rt (member b ''price'') = Inr p \<longrightarrow> p = NaN)"
  shows "(\<exists>e. handle_put rt pid b w = (Inl e, w) \<and>
              (b = JNull \<or> ToString_error (member b ''quantity'') \<noteq> None
               \<or> ToString_error (member b ''price'') \<noteq> None)) \<or>
         (\<exists>r. handle_put rt pid b w = (Inr r, w) \<and> statusCode r = 400 \<and>
              \<not> (b = JNull \<or> ToString_error (member b ''quantity'') \<noteq> None
                 \<or> ToString_error (member b ''price'') \<noteq> None))"
proof (cases "b = JNull")
  case True
  with handle_put_null [of rt pid w] show ?thesis by auto
next
  case False
  show ?thesis
  proof (cases "parseInt10 rt (member b ''quantity'')")
    case (Inl e)
    with parseInt10_cases [of "member b ''quantity''" rt]
    have "ToString_error (member b ''quantity'') \<noteq> None" by auto
    with handle_put_quantity_throws [OF False Inl, of pid w] show ?thesis by auto
  next
    case q: (Inr q)
    with parseInt10_cases [of "member b ''quantity''" rt]
    have tq: "ToString_error (member b ''quantity'') = None" by auto
    show ?thesis
    proof (cases "parseFloat rt (member b ''price'')")
      case (Inl e)
      with parseFloat_cases [of "member b ''price''" rt]
      have "ToString_error (member b ''price'') \<noteq> None" by auto
      with handle_put_price_throws [OF False q Inl, of pid w] show ?thesis by auto
    next
      case p: (Inr p)
      with parseFloat_cases [of "member b ''price''" rt]
      have tp: "ToString_error (member b ''price'') = None" by auto
      from assms q p
      have "pid = [] \<or> \<not> truthy (member b ''productname'') \<or> isNaN q \<or> isNaN p"
        by (auto simp: isNaN_def)
      from handle_put_invalid [OF False q p this, of w] False tq tp show ?thesis
        by (simp add: formatResponse_def)
    qed
  qed
qed

text \<open>
  C3, as amended. Take a \<^verbatim>\<open>POST\<close> or \<^verbatim>\<open>PUT\<close> request whose body parses as JSON (an
  absent body is the empty object) to a value \<open>b\<close> in which \<open>productname\<close> is missing
  or the empty string, or for whose \<open>quantity\<close> the call \<^verbatim>\<open>parseInt(quantity, 10)\<close>
  returns no number other than \<^verbatim>\<open>NaN\<close>, or for whose \<open>price\<close> the call
  \<^verbatim>\<open>parseFloat(price)\<close> returns no number other than \<^verbatim>\<open>NaN\<close>. The state is returned as
  it was: no request was sent to the collection store, the speech service or the
  object store. The response is 400, except that it is the 500 of the outer
  \<^verbatim>\<open>catch\<close> when \<open>b\<close> is \<^verbatim>\<open>null\<close> (reading \<^verbatim>\<open>body.productname\<close> throws) or when \<open>quantity\<close>
  or \<open>price\<close> is a value on which string conversion throws (an object with a member
  named \<^verbatim>\<open>toString\<close>, or an array that holds one): the parsers run before the
  validation.
\<close>

theorem invalid_input_is_rejected_without_writes:
  assumes "httpMethod ev = ''POST'' \<or> httpMethod ev = ''PUT''"
    and "parse_body (body ev) = Inr b"
    and "member b ''productname'' = None \<or> member b ''productname'' = Some (JStr [])
         \<or> (\<forall>q. parseInt10 rt (member b ''quantity'') = Inr q \<longrightarrow> q = NaN)
         \<or> (\<forall>p. parseFloat rt (member b ''price'') = Inr p \<longrightarrow> p = NaN)"
  shows "snd (handler rt ev w) = w \<and>
         statusCode (fst (handler rt ev w)) =
           (if b = JNull \<or> ToString_error (member b ''quantity'') \<noteq> None
               \<or> ToString_error (member b ''price'') \<noteq> None
            then 500 else 400)"
proof -
  from assms(1) show ?thesis
  proof
    assume "httpMethod ev = ''POST''"
    with assms(2) have h: "handler_try rt ev w = handle_post rt b w"
      by (simp add: handler_try_def)
    from handle_post_invalid_outcome [OF assms(3), of w]
    consider (thrown) e where "handle_post rt b w = (Inl e, w)"
        "b = JNull \<or> ToString_error (member b ''quantity'') \<noteq> None
         \<or> ToString_error (member b ''price'') \<noteq> None"
      | (rejected) r where "handle_post rt b w = (Inr r, w)" "statusCode r = 400"
        "\<not> (b = JNull \<or> ToString_error (member b ''quantity'') \<noteq> None
           \<or> ToString_error (member b ''price'') \<noteq> None)"
      by blast
    then show ?thesis
    proof cases
      case thrown
      with h show ?thesis by (simp add: handler_def formatResponse_def)
    next
      case rejected
      with h show ?thesis by (simp add: handler_def)
    qed
  next
    assume "httpMethod ev = ''PUT''"
    with assms(2) have h: "handler_try rt ev w = handle_put rt (path_id ev) b w"
      by (simp add: handler_try_def)
    from handle_put_invalid_outcome [OF assms(3), of "path_id ev" w]
    consider (thrown) e where "handle_put rt (path_id ev) b w = (Inl e, w)"
        "b = JNull \<or> ToString_error (member b ''quantity'') \<noteq> None
         \<or> ToString_error (member b ''price'') \<noteq> None"
      | (rejected) r where "handle_put rt (path_id ev) b w = (Inr r, w)" "statusCode r = 400"
        "\<not> (b = JNull \<or> ToString_error (member b ''quantity'') \<noteq> None
           \<or> ToString_error (member b ''price'') \<noteq> None)"
      by blast
    then show ?thesis
    proof cases
      case thrown
      with h show ?thesis by (simp add: handler_def formatResponse_def)
    next
      case rejected
      with h show ?thesis by (simp add: handler_def)
    qed
  qed
qed

text \<open>
  C3 at a \<^verbatim>\<open>POST\<close> whose body has a quantity and a price and no product name: 400,
  and the state is as it was.
\<close>

theorem invalid_input_is_rejected_without_writes_witness:
  "(httpMethod post_no_name = ''POST'' \<or> httpMethod post_no_name = ''PUT'') \<and>
   parse_body (body post_no_name)
     = Inr (JObj [(''quantity'', JStr ''3''), (''price'', JStr ''9.99'')]) \<and>
   member (JObj [(''quantity'', JStr ''3''), (''price'', JStr ''9.99'')]) ''productname'' = None \<and>
   snd (handler demo_rt post_no_name empty_world) = empty_world \<and>
   statusCode (fst (handler demo_rt post_no_name empty_world)) = 400"
  using invalid_input_is_rejected_without_writes
          [of post_no_name "JObj [(''quantity'', JStr ''3''), (''price'', JStr ''9.99'')]"
              demo_rt empty_world]
  by (simp add: post_no_name_def parse_body_def member_def ToString_error_def)

text \<open>
  C3 as stated fails: a \<^verbatim>\<open>POST\<close> whose body is the JSON text \<^verbatim>\<open>null\<close> has no product
  name, and is answered with 500.
\<close>

theorem post_null_body_counterexample:
  "statusCode (fst (handler demo_rt post_null empty_world)) = 500"
  by (simp add: handler_def handler_try_def parse_body_def post_null_def handle_post_def
                get_prop_def formatResponse_def)

subsection \<open>Runs in which no request fails\<close>

lemma send_ok:
  "fault rt (length (calls w)) = None \<Longrightarrow> send rt c w = (None, w\<lparr>calls := calls w @ [(c, Ok)]\<rparr>)"
  by (simp add: send_def)

lemma speak_and_respond_ok:
  assumes "\<forall>k. fault rt k = None"
  shows "\<exists>w'. speak_and_respond rt txt pid r0 w = (Inr r0, w') \<and> table w' = table w"
  using assms
  by (simp add: speak_and_respond_def polly_synthesize_def s3_upload_def send_ok)

lemma db_update_ok:
  assumes "fault rt (length (calls w)) = None"
  shows "\<exists>w'. db_update rt pid pn q p sn w
               = (Inr (find (has_key pid) (update_table pid pn q p sn (table w))), w') \<and>
              table w' = update_table pid pn q p sn (table w)"
  using assms
  by (simp add: db_update_def send_ok Let_def)

lemma db_delete_ok:
  assumes "fault rt (length (calls w)) = None"
  shows "db_delete rt pid w
           = (Inr (find (has_key pid) (table w)),
              w\<lparr>calls := calls w @ [(Delete pid, Ok)],
                table := filter (\<lambda>it. \<not> has_key pid it) (table w)\<rparr>)"
  using assms
  by (simp add: db_delete_def send_ok)

lemma handle_put_written:
  assumes "valid_input rt b n q p" and "pid \<noteq> []"
    and "fault rt (length (calls w)) = None"
    and "handle_put rt pid b w = (res, w')"
  shows "table w' = update_table pid n q p (toLowerCase rt n) (table w)"
proof -
  from db_update_ok [OF assms(3), of pid n q p "toLowerCase rt n"]
  obtain w1 where w1: "db_update rt pid n q p (toLowerCase rt n) w
               = (Inr (find (has_key pid) (update_table pid n q p (toLowerCase rt n) (table w))), w1)"
     and t1: "table w1 = update_table pid n q p (toLowerCase rt n) (table w)"
    by blast
  from find_update_table [of pid n q p "toLowerCase rt n" "table w"]
  obtain it where it: "find (has_key pid) (update_table pid n q p (toLowerCase rt n) (table w)) = Some it"
    by blast
  from w1 it assms(4)
  have "speak_and_respond rt n pid (formatResponse 200 (JObj it)) w1 = (res, w')"
    by (simp add: handle_put_accepted [OF assms(1,2)])
  from speak_and_respond_effect [OF this] t1 show ?thesis by simp
qed

lemma handle_put_ok:
  assumes "valid_input rt b n q p" and "pid \<noteq> []"
    and "\<forall>k. fault rt k = None"
    and "handle_put rt pid b w = (res, w')"
  shows "table w' = update_table pid n q p (toLowerCase rt n) (table w) \<and>
         (\<exists>it. find (has_key pid) (table w') = Some it \<and> res = Inr (formatResponse 200 (JObj it)))"
proof -
  from assms(3) have f: "fault rt (length (calls w)) = None" by simp
  from db_update_ok [OF f, of pid n q p "toLowerCase rt n"]
  obtain w1 where w1: "db_update rt pid n q p (toLowerCase rt n) w
               = (Inr (find (has_key pid) (update_table pid n q p (toLowerCase rt n) (table w))), w1)"
     and t1: "table w1 = update_table pid n q p (toLowerCase rt n) (table w)"
    by blast
  from find_update_table [of pid n q p "toLowerCase rt n" "table w"]
  obtain it where it: "find (has_key pid) (update_table pid n q p (toLowerCase rt n) (table w)) = Some it"
    by blast
  from speak_and_respond_ok [OF assms(3), of n pid "formatResponse 200 (JObj it)" w1]
  obtain w2 where w2: "speak_and_respond rt n pid (formatResponse 200 (JObj it)) w1
                         = (Inr (formatResponse 200 (JObj it)), w2)"
     and t2: "table w2 = table w1"
    by blast
  from w1 it w2 assms(4) have "res = Inr (formatResponse 200 (JObj it)) \<and> w' = w2"
    by (simp add: handle_put_accepted [OF assms(1,2)])
  with t1 t2 it show ?thesis by simp
qed


lemma parse_body_well_formed:
  "\<forall>m. t \<noteq> Some (Malformed m) \<Longrightarrow> \<exists>b. parse_body t = Inr b"
  by (auto simp: parse_body_def split: option.splits body_text.splits)

lemma handle_delete_unknown:
  assumes "find (has_key pid) (table w) = None" and "pid \<noteq> []"
    and "fault rt (length (calls w)) = None"
  shows "handle_delete rt pid w =
           (Inr (formatResponse 404 (message_body ''Item not found for deletion'')),
            w\<lparr>calls := calls w @ [(Delete pid, Ok)]\<rparr>)"
proof -
  from assms(1) have "filter (\<lambda>it. \<not> has_key pid it) (table w) = table w"
    by (auto simp: find_None_iff)
  with assms show ?thesis
    by (simp add: handle_delete_def db_delete_ok)
qed

lemma handle_delete_failed:
  assumes "pid \<noteq> []" and "fault rt (length (calls w)) = Some m"
  shows "\<exists>w'. handle_delete rt pid w = (Inl (ServiceError m), w') \<and> table w' = table w"
  using assms
  by (simp add: handle_delete_def db_delete_def send_def)

lemma handle_delete_no_id:
  "handle_delete rt [] w =
     (Inr (formatResponse 400 (message_body ''Missing product ID in path'')), w)"
  by (simp add: handle_delete_def)

lemma set_attrs_new_record:
  "set_attrs n q p sn [(''productid'', JStr pid)] =
     [(''productid'', JStr pid), (''productname'', JStr n), (''quantity'', JNum q),
      (''price'', JNum p), (''searchname'', JStr sn)]"
  by (simp add: set_attrs_def)

text \<open>The response of the handler, from the outcome of the branch.\<close>

lemma handler_of_put:
  assumes "httpMethod ev = ''PUT''" and "parse_body (body ev) = Inr b"
    and "handler rt ev w = (r, w')"
  shows "\<exists>res. handle_put rt (path_id ev) b w = (res, w') \<and>
           (case res of Inr r' \<Rightarrow> r' | Inl e \<Rightarrow>
              formatResponse 500 (message_body (''Internal Server Error: '' @ message e))) = r"
  using assms
  by (auto simp: handler_def handler_try_def split: prod.splits sum.splits)

lemma handler_of_delete:
  assumes "httpMethod ev = ''DELETE''" and "parse_body (body ev) = Inr b"
    and "handler rt ev w = (r, w')"
  shows "\<exists>res. handle_delete rt (path_id ev) w = (res, w') \<and>
           (case res of Inr r' \<Rightarrow> r' | Inl e \<Rightarrow>
              formatResponse 500 (message_body (''Internal Server Error: '' @ message e))) = r"
  using assms
  by (auto simp: handler_def handler_try_def split: prod.splits sum.splits)

lemma handler_malformed:
  assumes "body ev = Some (Malformed m)" and "handler rt ev w = (r, w')"
  shows "statusCode r = 500 \<and> w' = w"
  using assms
  by (auto simp: handler_def handler_try_def parse_body_def formatResponse_def)

subsection \<open>Update and delete\<close>



text \<open>
  C2, as amended. A \<^verbatim>\<open>PUT\<close> is never answered with 404: the update is a
  conditionless upsert that always returns the post-update image. For a \<^verbatim>\<open>PUT\<close>
  with a non-empty path identifier that matches no existing record and a body that
  parses to valid input (the product name is a non-empty string, and \<^verbatim>\<open>parseInt\<close>
  and \<^verbatim>\<open>parseFloat\<close> return numbers other than \<^verbatim>\<open>NaN\<close>), when the update request to
  the store does not fail, one record is appended to the collection: it holds the
  identifier, the product name, the two numbers the parsers returned, and what
  \<^verbatim>\<open>toLowerCase\<close> returned for the name; the response is 200 when no request of the
  run fails. For every \<^verbatim>\<open>DELETE\<close> whose path identifier matches no existing record,
  no record is created or removed, and the response is 404, except that it is 500
  when the body is malformed JSON or the delete request to the store fails, and
  400 when the path identifier is missing or empty.
\<close>

theorem unknown_id_delete_404_put_upsert:
  assumes "handler rt ev w = (r, w')"
  shows "(httpMethod ev = ''PUT'' \<longrightarrow> statusCode r \<noteq> 404) \<and>
         (\<forall>b n q p. httpMethod ev = ''PUT'' \<and> parse_body (body ev) = Inr b \<and>
                path_id ev \<noteq> [] \<and> find (has_key (path_id ev)) (table w) = None \<and>
                member b ''productname'' = Some (JStr n) \<and> n \<noteq> [] \<and>
                parseInt10 rt (member b ''quantity'') = Inr q \<and> q \<noteq> NaN \<and>
                parseFloat rt (member b ''price'') = Inr p \<and> p \<noteq> NaN \<and>
                fault rt (length (calls w)) = None \<longrightarrow>
            table w' = table w @
              [[(''productid'', JStr (path_id ev)), (''productname'', JStr n),
                (''quantity'', JNum q), (''price'', JNum p),
                (''searchname'', JStr (toLowerCase rt n))]] \<and>
            ((\<forall>k. fault rt k = None) \<longrightarrow> statusCode r = 200)) \<and>
         (httpMethod ev = ''DELETE'' \<and> find (has_key (path_id ev)) (table w) = None \<longrightarrow>
            table w' = table w \<and>
            statusCode r =
              (case body ev of
                 Some (Malformed m) \<Rightarrow> 500
               | _ \<Rightarrow> if path_id ev = [] then 400
                      else if fault rt (length (calls w)) = None then 404 else 500))"
proof (intro conjI impI allI)
  assume p: "httpMethod ev = ''PUT''"
  show "statusCode r \<noteq> 404"
  proof (cases "parse_body (body ev)")
    case (Inl e)
    with assms show ?thesis
      by (auto simp: handler_def handler_try_def formatResponse_def)
  next
    case (Inr b)
    from handler_of_put [OF p Inr assms]
    obtain res where res: "handle_put rt (path_id ev) b w = (res, w')"
      and r: "(case res of Inr r' \<Rightarrow> r' | Inl e \<Rightarrow>
               formatResponse 500 (message_body (''Internal Server Error: '' @ message e))) = r"
      by blast
    from handle_put_effect [OF res] r show ?thesis
      by (cases res) (auto simp: formatResponse_def)
  qed
next
  fix b n q p
  assume v: "httpMethod ev = ''PUT'' \<and> parse_body (body ev) = Inr b \<and>
                path_id ev \<noteq> [] \<and> find (has_key (path_id ev)) (table w) = None \<and>
                member b ''productname'' = Some (JStr n) \<and> n \<noteq> [] \<and>
                parseInt10 rt (member b ''quantity'') = Inr q \<and> q \<noteq> NaN \<and>
                parseFloat rt (member b ''price'') = Inr p \<and> p \<noteq> NaN \<and>
                fault rt (length (calls w)) = None"
  then have m: "httpMethod ev = ''PUT''" and b: "parse_body (body ev) = Inr b"
    and pid: "path_id ev \<noteq> []" and none: "find (has_key (path_id ev)) (table w) = None"
    and f: "fault rt (length (calls w)) = None"
    by simp_all
  from v have vi: "valid_input rt b n q p"
    by (simp add: valid_input_def)
  from handler_of_put [OF m b assms]
  obtain res where res: "handle_put rt (path_id ev) b w = (res, w')"
    and r: "(case res of Inr r' \<Rightarrow> r' | Inl e \<Rightarrow>
               formatResponse 500 (message_body (''Internal Server Error: '' @ message e))) = r"
    by blast
  from handle_put_written [OF vi pid f res]
  show "table w' = table w @
              [[(''productid'', JStr (path_id ev)), (''productname'', JStr n),
                (''quantity'', JNum q), (''price'', JNum p),
                (''searchname'', JStr (toLowerCase rt n))]]"
    by (simp add: update_table_missing [OF none] set_attrs_new_record)
  assume nofault: "\<forall>k. fault rt k = None"
  from handle_put_ok [OF vi pid nofault res]
  obtain it where "res = Inr (formatResponse 200 (JObj it))"
    by blast
  with r show "statusCode r = 200"
    by (auto simp: formatResponse_def)
next
  assume d: "httpMethod ev = ''DELETE'' \<and> find (has_key (path_id ev)) (table w) = None"
  then have m: "httpMethod ev = ''DELETE''"
    and none: "find (has_key (path_id ev)) (table w) = None"
    by simp_all
  have "table w' = table w \<and>
        statusCode r =
              (case body ev of
                 Some (Malformed m) \<Rightarrow> 500
               | _ \<Rightarrow> if path_id ev = [] then 400
                      else if fault rt (length (calls w)) = None then 404 else 500)"
  proof (cases "\<exists>m. body ev = Some (Malformed m)")
    case True
    then obtain m where mal: "body ev = Some (Malformed m)" by blast
    from handler_malformed [OF mal assms] mal show ?thesis by simp
  next
    case False
    with parse_body_well_formed [of "body ev"]
    obtain b where b: "parse_body (body ev) = Inr b" by blast
    from False have c: "(case body ev of
                 Some (Malformed m) \<Rightarrow> (500::nat)
               | _ \<Rightarrow> if path_id ev = [] then 400
                      else if fault rt (length (calls w)) = None then 404 else 500)
              = (if path_id ev = [] then 400
                      else if fault rt (length (calls w)) = None then 404 else 500)"
      by (simp split: option.splits body_text.splits)
    from handler_of_delete [OF m b assms]
    obtain res where res: "handle_delete rt (path_id ev) w = (res, w')"
      and r: "(case res of Inr r' \<Rightarrow> r' | Inl e \<Rightarrow>
               formatResponse 500 (message_body (''Internal Server Error: '' @ message e))) = r"
      by blast
    show ?thesis
    proof (cases "path_id ev = []")
      case True
      with res r handle_delete_no_id [of rt w] c show ?thesis
        by (auto simp: formatResponse_def)
    next
      case pid: False
      show ?thesis
      proof (cases "fault rt (length (calls w))")
        case None
        from handle_delete_unknown [OF none pid None] res r c pid None show ?thesis
          by (auto simp: formatResponse_def)
      next
        case (Some msg)
        from handle_delete_failed [OF pid Some] res r c pid Some show ?thesis
          by (auto simp: formatResponse_def)
      qed
    qed
  qed
  then show "table w' = table w"
    and "statusCode r =
              (case body ev of
                 Some (Malformed m) \<Rightarrow> 500
               | _ \<Rightarrow> if path_id ev = [] then 400
                      else if fault rt (length (calls w)) = None then 404 else 500)"
    by simp_all
qed

text \<open>
  C2 at a \<^verbatim>\<open>DELETE\<close> for an identifier that the one-record table does not hold: 404,
  and the table is as it was.
\<close>

theorem unknown_id_delete_404_put_upsert_witness:
  "handler demo_rt delete_unknown one_mug_world
     = (fst (handler demo_rt delete_unknown one_mug_world),
        snd (handler demo_rt delete_unknown one_mug_world)) \<and>
   httpMethod delete_unknown = ''DELETE'' \<and>
   find (has_key (path_id delete_unknown)) (table one_mug_world) = None \<and>
   table (snd (handler demo_rt delete_unknown one_mug_world)) = table one_mug_world \<and>
   statusCode (fst (handler demo_rt delete_unknown one_mug_world)) = 404"
proof -
  have p: "path_id delete_unknown = ''doesnotexist''"
    by (simp add: delete_unknown_def path_id_def param_def)
  have none: "find (has_key (path_id delete_unknown)) (table one_mug_world) = None"
    by (simp add: p one_mug_world_def has_key_def red_mug_def)
  have f: "fault demo_rt (length (calls one_mug_world)) = None"
    by (simp add: demo_rt_def)
  have m: "httpMethod delete_unknown = ''DELETE''" and b: "body delete_unknown = None"
    by (simp_all add: delete_unknown_def)
  from unknown_id_delete_404_put_upsert
         [of demo_rt delete_unknown one_mug_world
            "fst (handler demo_rt delete_unknown one_mug_world)"
            "snd (handler demo_rt delete_unknown one_mug_world)"] none m
  have "table (snd (handler demo_rt delete_unknown one_mug_world)) = table one_mug_world \<and>
        statusCode (fst (handler demo_rt delete_unknown one_mug_world)) =
              (case body delete_unknown of
                 Some (Malformed m) \<Rightarrow> 500
               | _ \<Rightarrow> if path_id delete_unknown = [] then 400
                      else if fault demo_rt (length (calls one_mug_world)) = None
                           then 404 else 500)"
    by simp
  with none m show ?thesis
    by (simp add: b p f)
qed

text \<open>
  C2 as stated fails for \<^verbatim>\<open>PUT\<close>: on a table that has no record \<^verbatim>\<open>abc123\<close>, a valid
  \<^verbatim>\<open>PUT\<close> for that identifier is answered with 200 and the record is created.
\<close>

theorem put_unknown_id_counterexample:
  "find (has_key ''abc123'') (table empty_world) = None \<and>
   statusCode (fst (handler demo_rt put_blue_mug empty_world)) = 200 \<and>
   table (snd (handler demo_rt put_blue_mug empty_world)) =
     [[(''productid'', JStr ''abc123''), (''productname'', JStr ''Blue Mug''),
       (''quantity'', JNum (Num 5)), (''price'', JNum (Num (25 / 2))),
       (''searchname'', JStr ''blue mug'')]]"
  by code_simp

subsection \<open>The pagination loop\<close>

lemma db_scan_cases:
  assumes "db_scan rt u s k w = (x, w1)"
  shows "\<exists>out. w1 = w\<lparr>calls := calls w @ [(Scan u s k, out)]\<rparr> \<and>
          (\<forall>pr. x = Inr pr \<longrightarrow> pr = scan_page rt u s k (table w))"
  using assms
  by (auto simp: db_scan_def send_def split: option.splits)

lemma scan_page_matches:
  "scan_page rt u s k tbl = (page, lek) \<Longrightarrow>
     \<forall>it \<in> set page. it \<in> set tbl \<and> filter_matches u s it"
  by (auto simp: scan_page_def Let_def dest!: in_set_takeD dest: in_set_dropD)

lemma scan_loop_general:
  "scan_loop rt u s k acc w = (res, w') \<Longrightarrow>
     table w' = table w \<and> bucket w' = bucket w \<and>
     (\<exists>cs. calls w' = calls w @ cs \<and> cs \<noteq> [] \<and>
           (\<forall>c out. (c, out) \<in> set cs \<longrightarrow> (\<exists>k'. c = Scan u s k'))) \<and>
     (\<forall>items. res = Inr items \<longrightarrow>
        (\<exists>ys. items = acc @ ys \<and> (\<forall>it \<in> set ys. it \<in> set (table w) \<and> filter_matches u s it)))"
proof (induction rt u s k acc w rule: scan_loop.induct)
  case (1 rt u s k acc w)
  obtain x w1 where x: "db_scan rt u s k w = (x, w1)"
    by (cases "db_scan rt u s k w")
  from db_scan_cases [OF x] obtain out
    where w1: "w1 = w\<lparr>calls := calls w @ [(Scan u s k, out)]\<rparr>"
      and pg: "\<forall>pr. x = Inr pr \<longrightarrow> pr = scan_page rt u s k (table w)"
    by blast
  show ?case
  proof (cases x)
    case (Inl e)
    with x "1.prems" w1 show ?thesis
      by (auto simp: scan_loop.simps [of rt u s k acc w])
  next
    case (Inr pr)
    obtain page lek where pr: "pr = (page, lek)" by (cases pr)
    with Inr pg have "scan_page rt u s k (table w) = (page, lek)" by simp
    from scan_page_matches [OF this]
    have m: "\<forall>it \<in> set page. it \<in> set (table w) \<and> filter_matches u s it" .
    show ?thesis
    proof (cases lek)
      case None
      with x Inr pr "1.prems" w1 m show ?thesis
        by (auto simp: scan_loop.simps [of rt u s k acc w])
    next
      case (Some k')
      with x Inr pr "1.prems"
      have "scan_loop rt u s (Some k') (acc @ page) w1 = (res, w')"
        by (simp add: scan_loop.simps [of rt u s k acc w])
      from "1.IH" [OF x [symmetric] Inr pr [symmetric] Some this]
      have ih: "table w' = table w1 \<and> bucket w' = bucket w1 \<and>
         (\<exists>cs. calls w' = calls w1 @ cs \<and> cs \<noteq> [] \<and>
               (\<forall>c out. (c, out) \<in> set cs \<longrightarrow> (\<exists>k'. c = Scan u s k'))) \<and>
         (\<forall>items. res = Inr items \<longrightarrow>
            (\<exists>ys. items = (acc @ page) @ ys \<and>
                  (\<forall>it \<in> set ys. it \<in> set (table w1) \<and> filter_matches u s it)))" .
      then obtain cs where cs: "calls w' = calls w1 @ cs"
          "\<forall>c out. (c, out) \<in> set cs \<longrightarrow> (\<exists>k'. c = Scan u s k')"
        by blast
      have calls: "\<exists>cs. calls w' = calls w @ cs \<and> cs \<noteq> [] \<and>
           (\<forall>c out. (c, out) \<in> set cs \<longrightarrow> (\<exists>k'. c = Scan u s k'))"
        using cs w1 by (intro exI [of _ "(Scan u s k, out) # cs"]) auto
      have items: "\<exists>ys. items = acc @ ys \<and>
               (\<forall>it \<in> set ys. it \<in> set (table w) \<and> filter_matches u s it)"
        if "res = Inr items" for items
      proof -
        from ih that obtain ys where "items = (acc @ page) @ ys"
          "\<forall>it \<in> set ys. it \<in> set (table w1) \<and> filter_matches u s it"
          by blast
        with m w1 show ?thesis
          by (intro exI [of _ "page @ ys"]) auto
      qed
      from ih w1 calls items show ?thesis by simp
    qed
  qed
qed

lemma scan_page_split:
  "filter (filter_matches u s) (drop (start_pos k) tbl) =
     fst (scan_page rt u s k tbl) @
     (case snd (scan_page rt u s k tbl) of
        None \<Rightarrow> []
      | Some k' \<Rightarrow> filter (filter_matches u s) (drop k' tbl))"
proof -
  let ?p = "start_pos k" and ?n = "Suc (page_limit rt (start_pos k))"
  have "take ?n (drop ?p tbl) @ drop ?n (drop ?p tbl) = drop ?p tbl"
    by (rule append_take_drop_id)
  moreover have "drop ?n (drop ?p tbl) = drop (?p + ?n) tbl"
    by (simp add: add.commute)
  ultimately have "drop ?p tbl = take ?n (drop ?p tbl) @ drop (?p + ?n) tbl"
    by simp
  then have "filter (filter_matches u s) (drop ?p tbl) =
      filter (filter_matches u s) (take ?n (drop ?p tbl)) @
      filter (filter_matches u s) (drop (?p + ?n) tbl)"
    by (metis filter_append)
  then show ?thesis
    by (simp add: scan_page_def Let_def)
qed

lemma scan_loop_ok:
  assumes "\<forall>n. fault rt n = None"
  shows "\<exists>w'. scan_loop rt u s k acc w
            = (Inr (acc @ filter (filter_matches u s) (drop (start_pos k) (table w))), w')"
  using assms
proof (induction rt u s k acc w rule: scan_loop.induct)
  case (1 rt u s k acc w)
  let ?w1 = "w\<lparr>calls := calls w @ [(Scan u s k, Ok)]\<rparr>"
  obtain page lek where pg: "scan_page rt u s k (table w) = (page, lek)"
    by (cases "scan_page rt u s k (table w)")
  from "1.prems" have x: "db_scan rt u s k w = (Inr (page, lek), ?w1)"
    by (simp add: db_scan_def send_def pg)
  show ?case
  proof (cases lek)
    case None
    with pg scan_page_split [of u s k "table w" rt]
    have "filter (filter_matches u s) (drop (start_pos k) (table w)) = page"
      by simp
    with x None show ?thesis
      by (simp add: scan_loop.simps [of rt u s k acc w])
  next
    case (Some k')
    from "1.IH" [OF x [symmetric] refl refl Some "1.prems"]
    obtain w' where "scan_loop rt u s (Some k') (acc @ page) ?w1
       = (Inr ((acc @ page) @ filter (filter_matches u s) (drop (start_pos (Some k')) (table ?w1))), w')"
      by blast
    moreover from pg Some scan_page_split [of u s k "table w" rt]
    have "filter (filter_matches u s) (drop (start_pos k) (table w))
            = page @ filter (filter_matches u s) (drop k' (table w))"
      by simp
    ultimately show ?thesis
      using x Some by (simp add: scan_loop.simps [of rt u s k acc w] start_pos_def)
  qed
qed

text \<open>The log line of the list operation: it throws exactly when the identity does.\<close>

lemma list_items_throws:
  "throws_on_ToString u \<Longrightarrow>
     list_items rt u s w = (Inl (TypeError ''Cannot convert object to primitive value''), w)"
  by (simp add: list_items_def ToString_error_def)

lemma list_items_scans:
  "\<not> throws_on_ToString u \<Longrightarrow> list_items rt u s w = scan_loop rt u s None [] w"
  by (simp add: list_items_def ToString_error_def)

lemma handle_get_throws:
  assumes "throws_on_ToString (getUserEmailFromToken rt (headers ev))"
  shows "\<exists>r. handle_get rt ev w = (Inr r, w) \<and> statusCode r = 500"
  using list_items_throws [OF assms, of rt "search_term ev" w]
  by (simp add: handle_get_def Let_def)

lemma handle_get_ok:
  assumes "\<not> throws_on_ToString (getUserEmailFromToken rt (headers ev))"
    and "\<forall>k. fault rt k = None" and "handle_get rt ev w = (res, w')"
  shows "res = Inr \<lparr> statusCode = 200, resp_headers = cors_only_headers,
                     resp_body = Some (JArr (map JObj
                        (filter (filter_matches (getUserEmailFromToken rt (headers ev))
                                   (search_term ev)) (table w)))) \<rparr>"
proof -
  from scan_loop_ok [OF assms(2), of "getUserEmailFromToken rt (headers ev)" "search_term ev"
         None "[]" w]
  obtain w1 where "scan_loop rt (getUserEmailFromToken rt (headers ev)) (search_term ev) None [] w
     = (Inr (filter (filter_matches (getUserEmailFromToken rt (headers ev)) (search_term ev))
               (table w)), w1)"
    by (auto simp: start_pos_def)
  with assms(3) list_items_scans [OF assms(1), of rt "search_term ev" w] show ?thesis
    by (auto simp: handle_get_def Let_def)
qed

lemma handler_of_get:
  assumes "httpMethod ev = ''GET''" and "\<forall>m. body ev \<noteq> Some (Malformed m)"
    and "handler rt ev w = (r, w')"
  shows "\<exists>res. handle_get rt ev w = (res, w') \<and>
           (case res of Inr r' \<Rightarrow> r' | Inl e \<Rightarrow>
              formatResponse 500 (message_body (''Internal Server Error: '' @ message e))) = r"
proof -
  from parse_body_well_formed [OF assms(2)] obtain b where "parse_body (body ev) = Inr b"
    by blast
  with assms(1,3) show ?thesis
    by (auto simp: handler_def handler_try_def split: prod.splits sum.splits)
qed

lemma filter_matches_iff:
  "filter_matches u s it \<longleftrightarrow>
     map_of it ''userId'' = Some u \<and>
     (\<forall>t. s = Some t \<longrightarrow> (\<exists>sn. map_of it ''searchname'' = Some (JStr sn) \<and> sublist t sn))"
  by (auto simp: filter_matches_def split: option.splits json.splits)

lemma sublist_same_length: "sublist t sn \<Longrightarrow> length t = length sn \<Longrightarrow> t = sn"
  by (auto simp: sublist_def)

subsection \<open>Listing\<close>

text \<open>
  C6, as amended. Take a \<^verbatim>\<open>GET\<close> request whose body is absent or parses as JSON.
  When the extracted identity is a value on which string conversion throws (an
  object with a member named \<^verbatim>\<open>toString\<close>, or an array that holds one), the log
  line at the head of the branch throws: the response is 500 and no scan is sent.
  For every other identity, against any table and however the store cuts it into
  pages, when no scan fails the response is 200 and lists exactly the records of
  the table that pass the filter, in table order and each as often as the table
  has it: the records whose owner field equals the extracted identity and, when a
  (non-empty) search term is given, whose \<open>searchname\<close> is a string that contains the
  term as a contiguous, exact-case substring. A record whose \<open>searchname\<close> is another
  string of the length of the term, such as the term in another case, is not
  listed.
\<close>

theorem list_returns_exactly_the_matching_records:
  assumes "httpMethod ev = ''GET''" and "\<forall>m. body ev \<noteq> Some (Malformed m)"
    and "handler rt ev w = (r, w')"
  shows "(throws_on_ToString (getUserEmailFromToken rt (headers ev)) \<longrightarrow>
            statusCode r = 500 \<and> w' = w) \<and>
         (\<not> throws_on_ToString (getUserEmailFromToken rt (headers ev)) \<and>
          (\<forall>k. fault rt k = None) \<longrightarrow>
            statusCode r = 200 \<and>
            listed r = map JObj (filter (filter_matches (getUserEmailFromToken rt (headers ev))
                                           (search_term ev)) (table w)) \<and>
            resp_body r = Some (JArr (listed r)) \<and>
            (\<forall>it. JObj it \<in> set (listed r) \<longleftrightarrow>
               it \<in> set (table w) \<and>
               map_of it ''userId'' = Some (getUserEmailFromToken rt (headers ev)) \<and>
               (\<forall>t. search_term ev = Some t \<longrightarrow>
                  (\<exists>sn. map_of it ''searchname'' = Some (JStr sn) \<and> sublist t sn))) \<and>
            (distinct (table w) \<longrightarrow> distinct (listed r)) \<and>
            (\<forall>it t sn. search_term ev = Some t \<and> map_of it ''searchname'' = Some (JStr sn) \<and>
                 t \<noteq> sn \<and> length t = length sn \<longrightarrow> JObj it \<notin> set (listed r)))"
proof (rule conjI; rule impI)
  let ?u = "getUserEmailFromToken rt (headers ev)"
  assume t: "throws_on_ToString ?u"
  from handler_of_get [OF assms]
  obtain res where res: "handle_get rt ev w = (res, w')"
    and r: "(case res of Inr r' \<Rightarrow> r' | Inl e \<Rightarrow>
               formatResponse 500 (message_body (''Internal Server Error: '' @ message e))) = r"
    by blast
  from handle_get_throws [OF t, of w] res r
  show "statusCode r = 500 \<and> w' = w"
    by auto
next
  let ?u = "getUserEmailFromToken rt (headers ev)" and ?s = "search_term ev"
  assume ok: "\<not> throws_on_ToString ?u \<and> (\<forall>k. fault rt k = None)"
  then have nt: "\<not> throws_on_ToString ?u" and nofault: "\<forall>k. fault rt k = None"
    by simp_all
  from handler_of_get [OF assms]
  obtain res where res: "handle_get rt ev w = (res, w')"
    and r: "(case res of Inr r' \<Rightarrow> r' | Inl e \<Rightarrow>
               formatResponse 500 (message_body (''Internal Server Error: '' @ message e))) = r"
    by blast
  from handle_get_ok [OF nt nofault res] r
  have r': "r = \<lparr> statusCode = 200, resp_headers = cors_only_headers,
                  resp_body = Some (JArr (map JObj (filter (filter_matches ?u ?s) (table w)))) \<rparr>"
    by simp
  then have l: "listed r = map JObj (filter (filter_matches ?u ?s) (table w))"
    by (simp add: listed_def)
  have mem: "JObj it \<in> set (listed r) \<longleftrightarrow> it \<in> set (table w) \<and> filter_matches ?u ?s it" for it
    by (auto simp: l)
  have d: "distinct (listed r)" if "distinct (table w)"
    using that by (simp add: l distinct_map inj_on_def)
  have cv: "JObj it \<notin> set (listed r)"
    if "search_term ev = Some t" "map_of it ''searchname'' = Some (JStr sn)"
       "t \<noteq> sn" "length t = length sn" for it t sn
    using that sublist_same_length [of t sn]
    by (auto simp: mem filter_matches_iff)
  from r' l mem d cv
  show "statusCode r = 200 \<and>
            listed r = map JObj (filter (filter_matches ?u ?s) (table w)) \<and>
            resp_body r = Some (JArr (listed r)) \<and>
            (\<forall>it. JObj it \<in> set (listed r) \<longleftrightarrow>
               it \<in> set (table w) \<and>
               map_of it ''userId'' = Some ?u \<and>
               (\<forall>t. search_term ev = Some t \<longrightarrow>
                  (\<exists>sn. map_of it ''searchname'' = Some (JStr sn) \<and> sublist t sn))) \<and>
            (distinct (table w) \<longrightarrow> distinct (listed r)) \<and>
            (\<forall>it t sn. search_term ev = Some t \<and> map_of it ''searchname'' = Some (JStr sn) \<and>
                 t \<noteq> sn \<and> length t = length sn \<longrightarrow> JObj it \<notin> set (listed r))"
    by (auto simp: filter_matches_iff)
qed

lemma get_mugs_facts:
  "getUserEmailFromToken demo_rt (headers get_mugs) = JStr ''a@b.c''"
  "search_term get_mugs = Some ''mug''"
  "filter (filter_matches (JStr ''a@b.c'') (Some ''mug'')) (table shelf_world) =
         [[(''productid'', JStr ''1''), (''userId'', JStr ''a@b.c''), (''searchname'', JStr ''red mug'')],
          [(''productid'', JStr ''4''), (''userId'', JStr ''a@b.c''), (''searchname'', JStr ''mug'')]]"
  by code_simp+

text \<open>
  C6 at a search for \<^verbatim>\<open>mug\<close> by the owner of three of the four records of a table
  that is read one record a page: the two records of that owner whose search name
  contains the term.
\<close>

theorem list_returns_exactly_the_matching_records_witness:
  "httpMethod get_mugs = ''GET'' \<and>
   \<not> throws_on_ToString (getUserEmailFromToken demo_rt (headers get_mugs)) \<and>
   statusCode (fst (handler demo_rt get_mugs shelf_world)) = 200 \<and>
   resp_body (fst (handler demo_rt get_mugs shelf_world)) =
     Some (JArr
        [JObj [(''productid'', JStr ''1''), (''userId'', JStr ''a@b.c''), (''searchname'', JStr ''red mug'')],
         JObj [(''productid'', JStr ''4''), (''userId'', JStr ''a@b.c''), (''searchname'', JStr ''mug'')]])"
proof -
  have m: "httpMethod get_mugs = ''GET''" and b: "\<forall>m. body get_mugs \<noteq> Some (Malformed m)"
    by (simp_all add: get_mugs_def)
  have nofault: "\<forall>k. fault demo_rt k = None"
    by (simp add: demo_rt_def)
  from list_returns_exactly_the_matching_records [OF m b,
         of demo_rt shelf_world "fst (handler demo_rt get_mugs shelf_world)"
            "snd (handler demo_rt get_mugs shelf_world)"] m nofault
  show ?thesis
    by (simp add: get_mugs_facts)
qed

lemma get_forged_identity:
  "getUserEmailFromToken forged_rt (headers get_forged) = JObj [(''toString'', JNull)]"
  by code_simp

text \<open>
  C6 as stated fails: a \<^verbatim>\<open>GET\<close> whose token carries the \<open>email\<close> claim
  \<^verbatim>\<open>{"toString":null}\<close> is answered with 500, although no request to a service
  fails.
\<close>

theorem get_forged_identity_counterexample:
  "statusCode (fst (handler forged_rt get_forged shelf_world)) = 500"
proof -
  have "throws_on_ToString (getUserEmailFromToken forged_rt (headers get_forged))"
    by (simp add: get_forged_identity)
  from handle_get_throws [OF this, of shelf_world]
  obtain r where "handle_get forged_rt get_forged shelf_world = (Inr r, shelf_world)"
    and "statusCode r = 500"
    by blast
  moreover have "handler_try forged_rt get_forged shelf_world
                   = handle_get forged_rt get_forged shelf_world"
    by (simp add: handler_try_def parse_body_def get_forged_def)
  ultimately show ?thesis
    by (simp add: handler_def)
qed

text \<open>
  C10. For every \<^verbatim>\<open>GET\<close> request for which the identity extraction yields \<^verbatim>\<open>null\<close>,
  the handler still scans, every scan it sends has the owner filter bound to
  \<^verbatim>\<open>null\<close>, and every record in the response is a record of the table whose owner
  field is \<^verbatim>\<open>null\<close>: records of other owners are never returned.
\<close>

theorem list_without_identity_scans_for_null:
  assumes "httpMethod ev = ''GET''" and "\<forall>m. body ev \<noteq> Some (Malformed m)"
    and "getUserEmailFromToken rt (headers ev) = JNull"
    and "handler rt ev w = (r, w')"
  shows "new_calls w w' \<noteq> [] \<and>
         (\<forall>c out. (c, out) \<in> set (new_calls w w') \<longrightarrow> (\<exists>k. c = Scan JNull (search_term ev) k)) \<and>
         (\<forall>it. JObj it \<in> set (listed r) \<longrightarrow>
            it \<in> set (table w) \<and> map_of it ''userId'' = Some JNull)"
proof -
  from parse_body_well_formed [OF assms(2)] obtain b where b: "parse_body (body ev) = Inr b"
    by blast
  from assms(1,4) b have h: "handler rt ev w =
      (case handle_get rt ev w of (Inr r', w1) \<Rightarrow> (r', w1)
       | (Inl e, w1) \<Rightarrow>
           (formatResponse 500 (message_body (''Internal Server Error: '' @ message e)), w1))"
    by (simp add: handler_def handler_try_def)
  have li: "list_items rt JNull (search_term ev) w = scan_loop rt JNull (search_term ev) None [] w"
    by (simp add: list_items_scans)
  obtain x w1 where x: "scan_loop rt JNull (search_term ev) None [] w = (x, w1)"
    by (cases "scan_loop rt JNull (search_term ev) None [] w")
  from scan_loop_general [OF x]
  obtain cs where cs: "calls w1 = calls w @ cs" "cs \<noteq> []"
      "\<forall>c out. (c, out) \<in> set cs \<longrightarrow> (\<exists>k'. c = Scan JNull (search_term ev) k')"
    and items: "\<forall>items. x = Inr items \<longrightarrow>
        (\<exists>ys. items = [] @ ys \<and>
           (\<forall>it \<in> set ys. it \<in> set (table w) \<and> filter_matches JNull (search_term ev) it))"
    by blast
  show ?thesis
  proof (cases x)
    case (Inl e)
    with x h li assms(3,4) have "w' = w1" "listed r = []"
      by (auto simp: handle_get_def Let_def listed_def message_body_def)
    with cs show ?thesis by (simp add: new_calls_def)
  next
    case (Inr its)
    with x h li assms(3,4) have "w' = w1" "listed r = map JObj its"
      by (auto simp: handle_get_def Let_def listed_def)
    with cs items Inr show ?thesis
      by (auto simp: new_calls_def filter_matches_iff)
  qed
qed

theorem list_without_identity_scans_for_null_witness:
  "httpMethod get_all = ''GET'' \<and>
   getUserEmailFromToken demo_rt (headers get_all) = JNull \<and>
   red_mug \<in> set (table one_mug_world) \<and>
   JObj red_mug \<notin> set (listed (fst (handler demo_rt get_all one_mug_world)))"
proof -
  have m: "httpMethod get_all = ''GET''" and b: "\<forall>m. body get_all \<noteq> Some (Malformed m)"
    and u: "getUserEmailFromToken demo_rt (headers get_all) = JNull"
    by (simp_all add: get_all_def getUserEmailFromToken_def authorization_header_def)
  have owner: "map_of red_mug ''userId'' = Some (JStr ''alice'')"
    by (simp add: red_mug_def)
  from list_without_identity_scans_for_null [OF m b u,
         of one_mug_world "fst (handler demo_rt get_all one_mug_world)"
            "snd (handler demo_rt get_all one_mug_world)"] owner m u
  show ?thesis
    by (auto simp: one_mug_world_def)
qed

subsection \<open>The search name\<close>













subsection \<open>Identity extraction\<close>

text \<open>
  What the helper returns, under the two spellings it reads: \<^verbatim>\<open>null\<close> unless the
  value, after an optional \<^verbatim>\<open>Bearer \<close> prefix, has exactly three segments and the
  middle one parses to an object; then the first truthy of the three claims, and
  \<^verbatim>\<open>null\<close> when none is.
\<close>

lemma payload_identity_cases:
  "payload_identity payload =
     (case payload of
        JObj kvs \<Rightarrow>
          first_truthy [map_of kvs ''email'', map_of kvs ''cognito:username'',
                        map_of kvs ''preferred_username'']
      | _ \<Rightarrow> JNull)"
  by (cases payload) (simp_all add: payload_identity_def get_prop_def member_def)

lemma getUserEmailFromToken_cases:
  "getUserEmailFromToken rt hs =
     (case authorization_header hs of
        None \<Rightarrow> JNull
      | Some a \<Rightarrow>
          (case split_on (CHR ''.'') (if take 7 a = ''Bearer '' then drop 7 a else a) of
             [h, p, s] \<Rightarrow>
               (case jwt_payload rt p of
                  Some (JObj kvs) \<Rightarrow>
                    first_truthy [map_of kvs ''email'', map_of kvs ''cognito:username'',
                                  map_of kvs ''preferred_username'']
                | _ \<Rightarrow> JNull)
           | _ \<Rightarrow> JNull))"
proof (cases "authorization_header hs")
  case None
  then show ?thesis by (simp add: getUserEmailFromToken_def)
next
  case (Some a)
  show ?thesis
  proof (cases "a = []")
    case True
    with Some show ?thesis by (simp add: getUserEmailFromToken_def)
  next
    case False
    let ?parts = "split_on (CHR ''.'') (if take 7 a = ''Bearer '' then drop 7 a else a)"
    show ?thesis
    proof (cases "\<exists>h p s. ?parts = [h, p, s]")
      case True
      then obtain h p s where "?parts = [h, p, s]" by blast
      with Some False show ?thesis
        by (simp add: getUserEmailFromToken_def Let_def payload_identity_cases
                 split: option.splits json.splits)
    next
      case no: False
      then have "length ?parts \<noteq> 3"
        by (auto simp: length_Suc_conv numeral_3_eq_3)
      moreover from no have "(case ?parts of [h, p, s] \<Rightarrow> x h p s | _ \<Rightarrow> y) = y" for x :: "string \<Rightarrow> string \<Rightarrow> string \<Rightarrow> json" and y
        by (auto split: list.splits)
      ultimately show ?thesis
        using Some False by (simp add: getUserEmailFromToken_def Let_def)
    qed
  qed
qed

text \<open>
  C9 at three spellings of the header name. The source reads the keys
  \<^verbatim>\<open>Authorization\<close> and \<^verbatim>\<open>authorization\<close> only, under the comment
  \<^verbatim>\<open>Case-insensitive check\<close>: the same token under \<^verbatim>\<open>AUTHORIZATION\<close> yields no
  identity.
\<close>

theorem uppercase_authorization_header_is_not_read:
  "getUserEmailFromToken demo_rt (Some [(''Authorization'', demo_token)]) = JStr ''a@b.c'' \<and>
   getUserEmailFromToken demo_rt (Some [(''authorization'', demo_token)]) = JStr ''a@b.c'' \<and>
   getUserEmailFromToken demo_rt (Some [(''AUTHORIZATION'', demo_token)]) = JNull"
  by code_simp

end
